theory Spec2Isabelle
  imports Main "HOL-Library.Sublist" "HOL-Library.Monad_Syntax"
begin

section \<open>The lesson ledger (src/state/progress-tracker.ts)\<close>

text \<open>
  The status tag of a lesson is the string union
  \<^verbatim>\<open>'pending' | 'downloading' | 'completed' | 'failed' | 'skipped'\<close>.
\<close>

datatype status = Pending | Downloading | Completed | Failed | Skipped

text \<open>
  \<^verbatim>\<open>Omit<LessonState, 'status' | 'attempts'>\<close> is the argument type of \<open>addLesson\<close>;
  \<open>LessonState\<close> extends it by the two omitted fields. Optional fields are
  options (\<open>None\<close> is \<^verbatim>\<open>undefined\<close>). The field \<^verbatim>\<open>id\<close> is named \<open>idL\<close>.
\<close>

record LessonInfo =
  idL :: string
  moduleIndex :: int
  lessonIndex :: int
  moduleTitle :: string
  lessonTitle :: string
  videoUrl :: "string option"
  videoProvider :: "string option"
  outputPath :: "string option"
  error :: "string option"

record LessonState = LessonInfo +
  status :: status
  attempts :: int

record CourseState =
  url :: string
  courseName :: string
  startedAt :: string
  lastUpdated :: string
  lessons :: "LessonState list"

text \<open>
  The tracker object. \<open>saveTimeout\<close> holds the pending debounce timer, if any,
  represented by its delay in milliseconds.
\<close>

record ProgressTracker =
  state :: CourseState
  statePath :: string
  saveTimeout :: "nat option"

text \<open>
  A \<^verbatim>\<open>Partial<LessonState>\<close> object literal is the list of its key/value pairs;
  \<^verbatim>\<open>Object.assign\<close> copies them onto the target one after the other.
\<close>

datatype field_update =
    Set_id string
  | Set_moduleIndex int
  | Set_lessonIndex int
  | Set_moduleTitle string
  | Set_lessonTitle string
  | Set_videoUrl "string option"
  | Set_videoProvider "string option"
  | Set_status status
  | Set_outputPath "string option"
  | Set_error "string option"
  | Set_attempts int

fun assign_field :: "LessonState \<Rightarrow> field_update \<Rightarrow> LessonState" where
  "assign_field l (Set_id v) = l\<lparr>idL := v\<rparr>"
| "assign_field l (Set_moduleIndex v) = l\<lparr>moduleIndex := v\<rparr>"
| "assign_field l (Set_lessonIndex v) = l\<lparr>lessonIndex := v\<rparr>"
| "assign_field l (Set_moduleTitle v) = l\<lparr>moduleTitle := v\<rparr>"
| "assign_field l (Set_lessonTitle v) = l\<lparr>lessonTitle := v\<rparr>"
| "assign_field l (Set_videoUrl v) = l\<lparr>videoUrl := v\<rparr>"
| "assign_field l (Set_videoProvider v) = l\<lparr>videoProvider := v\<rparr>"
| "assign_field l (Set_status v) = l\<lparr>status := v\<rparr>"
| "assign_field l (Set_outputPath v) = l\<lparr>outputPath := v\<rparr>"
| "assign_field l (Set_error v) = l\<lparr>error := v\<rparr>"
| "assign_field l (Set_attempts v) = l\<lparr>attempts := v\<rparr>"

definition object_assign :: "LessonState \<Rightarrow> field_update list \<Rightarrow> LessonState" where
  "object_assign l updates = foldl assign_field l updates"

text \<open>
  \<^verbatim>\<open>createEmptyState()\<close> reads the clock twice, once for each time stamp; the two
  readings are parameters.
\<close>

definition createEmptyState :: "string \<Rightarrow> string \<Rightarrow> CourseState" where
  "createEmptyState started updated =
     \<lparr>url = '''', courseName = '''', startedAt = started, lastUpdated = updated,
      lessons = []\<rparr>"

text \<open>
  \<^verbatim>\<open>scheduleSave()\<close> clears a pending timer and arms a new one of 1000 ms.
\<close>

definition scheduleSave :: "ProgressTracker \<Rightarrow> ProgressTracker" where
  "scheduleSave t = t\<lparr>saveTimeout := Some 1000\<rparr>"

definition initialize :: "string \<Rightarrow> string \<Rightarrow> string \<Rightarrow> ProgressTracker \<Rightarrow> ProgressTracker" where
  "initialize now u name t =
     t\<lparr>state := (state t)\<lparr>url := u, courseName := name, startedAt := now\<rparr>\<rparr>"

definition getLesson :: "ProgressTracker \<Rightarrow> string \<Rightarrow> LessonState option" where
  "getLesson t i = find (\<lambda>l. idL l = i) (lessons (state t))"

text \<open>
  \<^verbatim>\<open>addLesson\<close>: push \<^verbatim>\<open>{...lesson, status: 'pending', attempts: 0}\<close> unless a
  record with that id is found.
\<close>

definition pending_record :: "LessonInfo \<Rightarrow> LessonState" where
  "pending_record lesson = LessonInfo.extend lesson (LessonState.fields Pending 0)"

definition addLesson :: "ProgressTracker \<Rightarrow> LessonInfo \<Rightarrow> ProgressTracker" where
  "addLesson t lesson =
     (case find (\<lambda>l. idL l = idL lesson) (lessons (state t)) of
        Some existing \<Rightarrow> t
      | None \<Rightarrow>
          scheduleSave
            (t\<lparr>state := (state t)\<lparr>lessons :=
                 lessons (state t) @ [pending_record lesson]\<rparr>\<rparr>))"

text \<open>
  \<^verbatim>\<open>find\<close> yields a reference to the first matching element of the array and
  \<^verbatim>\<open>Object.assign\<close> mutates that element in place.
\<close>

fun assign_first :: "string \<Rightarrow> field_update list \<Rightarrow> LessonState list \<Rightarrow> LessonState list" where
  "assign_first i updates [] = []"
| "assign_first i updates (l # ls) =
     (if idL l = i then object_assign l updates # ls else l # assign_first i updates ls)"

definition updateLesson :: "ProgressTracker \<Rightarrow> string \<Rightarrow> field_update list \<Rightarrow> ProgressTracker" where
  "updateLesson t i updates =
     (case find (\<lambda>l. idL l = i) (lessons (state t)) of
        Some lesson \<Rightarrow>
          scheduleSave
            (t\<lparr>state := (state t)\<lparr>lessons := assign_first i updates (lessons (state t))\<rparr>\<rparr>)
      | None \<Rightarrow> t)"

text \<open>
  The numbers of the ledger are JavaScript numbers, that is doubles, and the model holds
  the integer-valued ones as integers. \<^verbatim>\<open>x || 0\<close> on such a number: \<open>0\<close> is the only
  falsy integer. \<^verbatim>\<open>x + 1\<close> is exact as long as the sum lies within \<^verbatim>\<open>2^53\<close> of
  zero; beyond, the doubles are the multiples of 2 (up to \<^verbatim>\<open>2^54\<close>), then of 4 and so
  on, and the sum is rounded to the nearest of them, a tie going to the one with the
  even mantissa: a double between \<^verbatim>\<open>2^53\<close> and \<^verbatim>\<open>2^54\<close> in size stays or moves on
  by 2, a larger one stays.
\<close>

definition or_zero :: "int \<Rightarrow> int" where
  "or_zero x = (if x = 0 then 0 else x)"

definition double_plus_one :: "int \<Rightarrow> int" where
  "double_plus_one n =
     (if - 9007199254740992 \<le> n \<and> n < 9007199254740992 then n + 1
      else if \<bar>n\<bar> < 18014398509481984 then (if even (n div 2) then n else n + 2)
      else n)"

definition markStarted :: "ProgressTracker \<Rightarrow> string \<Rightarrow> ProgressTracker" where
  "markStarted t i =
     updateLesson t i
       [Set_status Downloading,
        Set_attempts
          (double_plus_one
             (case getLesson t i of None \<Rightarrow> 0 | Some l \<Rightarrow> or_zero (attempts l)))]"

definition markCompleted :: "ProgressTracker \<Rightarrow> string \<Rightarrow> string \<Rightarrow> ProgressTracker" where
  "markCompleted t i out =
     updateLesson t i [Set_status Completed, Set_outputPath (Some out), Set_error None]"

definition markFailed :: "ProgressTracker \<Rightarrow> string \<Rightarrow> string \<Rightarrow> ProgressTracker" where
  "markFailed t i err = updateLesson t i [Set_status Failed, Set_error (Some err)]"

definition markSkipped :: "ProgressTracker \<Rightarrow> string \<Rightarrow> string \<Rightarrow> ProgressTracker" where
  "markSkipped t i reason = updateLesson t i [Set_status Skipped, Set_error (Some reason)]"

definition getPendingLessons :: "ProgressTracker \<Rightarrow> LessonState list" where
  "getPendingLessons t =
     filter (\<lambda>l. status l = Pending \<or> (status l = Failed \<and> attempts l < 3))
       (lessons (state t))"

record Stats =
  total_s :: nat
  completed_s :: nat
  failed_s :: nat
  pending_s :: nat
  skipped_s :: nat

definition getStats :: "ProgressTracker \<Rightarrow> Stats" where
  "getStats t =
     (let ls = lessons (state t) in
      \<lparr>total_s = length ls,
       completed_s = length (filter (\<lambda>l. status l = Completed) ls),
       failed_s = length (filter (\<lambda>l. status l = Failed) ls),
       pending_s = length (filter (\<lambda>l. status l = Pending) ls),
       skipped_s = length (filter (\<lambda>l. status l = Skipped) ls)\<rparr>)"

definition getState :: "ProgressTracker \<Rightarrow> CourseState" where
  "getState t = state t"

definition hasExistingProgress :: "ProgressTracker \<Rightarrow> bool" where
  "hasExistingProgress t = (length (lessons (state t)) > 0)"

definition getCourseName :: "ProgressTracker \<Rightarrow> string" where
  "getCourseName t = courseName (state t)"


text \<open>
  \<^verbatim>\<open>resumeCommand\<close> of the command-line program walks \<open>getPendingLessons()\<close> and
  enqueues every lesson whose \<^verbatim>\<open>videoUrl\<close> is truthy; the others are skipped with a
  warning.
\<close>

definition truthy :: "string option \<Rightarrow> bool" where
  "truthy v = (case v of None \<Rightarrow> False | Some s \<Rightarrow> s \<noteq> [])"

definition or_else :: "string option \<Rightarrow> string \<Rightarrow> string" where
  "or_else v d = (if truthy v then the v else d)"

definition resume_enqueued :: "ProgressTracker \<Rightarrow> LessonState list" where
  "resume_enqueued t = filter (\<lambda>l. truthy (videoUrl l)) (getPendingLessons t)"

section \<open>JSON values and texts\<close>

text \<open>
  What \<^verbatim>\<open>JSON.parse\<close> returns and \<^verbatim>\<open>JSON.stringify\<close> takes. A number is held as an
  integer, as in the ledger; an object is the list of its members in their order.
\<close>

datatype json =
    J_null
  | J_bool bool
  | J_number int
  | J_string string
  | J_array "json list"
  | J_object "(string \<times> json) list"

text \<open>
  A number printed in decimal, as template strings and \<^verbatim>\<open>JSON.stringify\<close> print it.
  (From \<^verbatim>\<open>10^21\<close> on they print a mantissa and an exponent, which is not followed here:
  the two texts differ in digits, a point, \<^verbatim>\<open>e\<close> and a sign, never in a quote or a
  bracket.)
\<close>

fun show_nat :: "nat \<Rightarrow> string" where
  "show_nat n =
     (if n < 10 then [char_of (48 + n)]
      else show_nat (n div 10) @ [char_of (48 + n mod 10)])"

declare show_nat.simps [simp del]









text \<open>
  What every JSON text has: it is not empty, and read from left to right its string
  literals are closed and its brackets outside string literals are closed. The reader
  keeps the number of open brackets and whether it is outside a string literal, inside
  one, or behind a backslash inside one.
\<close>

datatype mode = Outside | In_string | Escaped

fun step :: "nat \<times> mode \<Rightarrow> char \<Rightarrow> nat \<times> mode" where
  "step (d, Outside) c =
     (if c = CHR 0x22 then (d, In_string)
      else if c = CHR ''{'' \<or> c = CHR ''['' then (Suc d, Outside)
      else if c = CHR ''}'' \<or> c = CHR '']'' then (d - 1, Outside)
      else (d, Outside))"
| "step (d, In_string) c =
     (if c = CHR 0x5C then (d, Escaped)
      else if c = CHR 0x22 then (d, Outside)
      else (d, In_string))"
| "step (d, Escaped) c = (d, In_string)"

definition balanced :: "string \<Rightarrow> bool" where
  "balanced text = (text \<noteq> [] \<and> foldl step (0, Outside) text = (0, Outside))"

text \<open>
  For the proofs about texts: a property holds after every character read; a piece of
  text read outside a string literal at a given depth ends there again without ever
  going below; a character that opens or closes nothing.
\<close>

fun all_after :: "(nat \<times> mode \<Rightarrow> bool) \<Rightarrow> nat \<times> mode \<Rightarrow> string \<Rightarrow> bool" where
  "all_after P st [] = True"
| "all_after P st (c # cs) = (P (step st c) \<and> all_after P (step st c) cs)"

definition neutral :: "nat \<Rightarrow> string \<Rightarrow> bool" where
  "neutral d t =
     (foldl step (d, Outside) t = (d, Outside) \<and> all_after (\<lambda>s. d \<le> fst s) (d, Outside) t)"


text \<open>
  The ledger as the JavaScript object it is. An optional field that is
  \<^verbatim>\<open>undefined\<close> is no member. The members come in the order of the interface
  declarations; the order in which a running program has created them is not held
  by the records.
\<close>

definition status_name :: "status \<Rightarrow> string" where
  "status_name s =
     (case s of Pending \<Rightarrow> ''pending'' | Downloading \<Rightarrow> ''downloading''
      | Completed \<Rightarrow> ''completed'' | Failed \<Rightarrow> ''failed'' | Skipped \<Rightarrow> ''skipped'')"

definition optional_member :: "string \<Rightarrow> string option \<Rightarrow> (string \<times> json) list" where
  "optional_member k v = (case v of None \<Rightarrow> [] | Some s \<Rightarrow> [(k, J_string s)])"

definition lesson_json :: "LessonState \<Rightarrow> json" where
  "lesson_json l =
     J_object
       ([(''id'', J_string (idL l)),
         (''moduleIndex'', J_number (moduleIndex l)),
         (''lessonIndex'', J_number (lessonIndex l)),
         (''moduleTitle'', J_string (moduleTitle l)),
         (''lessonTitle'', J_string (lessonTitle l))]
        @ optional_member ''videoUrl'' (videoUrl l)
        @ optional_member ''videoProvider'' (videoProvider l)
        @ [(''status'', J_string (status_name (status l)))]
        @ optional_member ''outputPath'' (outputPath l)
        @ optional_member ''error'' (error l)
        @ [(''attempts'', J_number (attempts l))])"


text \<open>
  Reading a JSON value as a \<open>CourseState\<close>: every required member is there with a
  value of its type, every optional member is a string or absent. Only for such
  values do the typed operations above say what the program does.
\<close>

definition as_string :: "json option \<Rightarrow> string option" where
  "as_string v = (case v of Some (J_string s) \<Rightarrow> Some s | _ \<Rightarrow> None)"

definition as_number :: "json option \<Rightarrow> int option" where
  "as_number v = (case v of Some (J_number n) \<Rightarrow> Some n | _ \<Rightarrow> None)"

definition as_optional_string :: "json option \<Rightarrow> string option option" where
  "as_optional_string v =
     (case v of None \<Rightarrow> Some None | Some (J_string s) \<Rightarrow> Some (Some s) | _ \<Rightarrow> None)"

definition as_status :: "json option \<Rightarrow> status option" where
  "as_status v =
     (case as_string v of
        None \<Rightarrow> None
      | Some s \<Rightarrow>
          (if s = ''pending'' then Some Pending
           else if s = ''downloading'' then Some Downloading
           else if s = ''completed'' then Some Completed
           else if s = ''failed'' then Some Failed
           else if s = ''skipped'' then Some Skipped
           else None))"

definition as_LessonState :: "json \<Rightarrow> LessonState option" where
  "as_LessonState v =
     (case v of
        J_object kvs \<Rightarrow>
          do {
            i \<leftarrow> as_string (map_of kvs ''id'');
            mi \<leftarrow> as_number (map_of kvs ''moduleIndex'');
            li \<leftarrow> as_number (map_of kvs ''lessonIndex'');
            mt \<leftarrow> as_string (map_of kvs ''moduleTitle'');
            lt \<leftarrow> as_string (map_of kvs ''lessonTitle'');
            vu \<leftarrow> as_optional_string (map_of kvs ''videoUrl'');
            vp \<leftarrow> as_optional_string (map_of kvs ''videoProvider'');
            st \<leftarrow> as_status (map_of kvs ''status'');
            out \<leftarrow> as_optional_string (map_of kvs ''outputPath'');
            err \<leftarrow> as_optional_string (map_of kvs ''error'');
            a \<leftarrow> as_number (map_of kvs ''attempts'');
            Some \<lparr>idL = i, moduleIndex = mi, lessonIndex = li, moduleTitle = mt,
                  lessonTitle = lt, videoUrl = vu, videoProvider = vp, outputPath = out,
                  error = err, status = st, attempts = a\<rparr>
          }
      | _ \<Rightarrow> None)"

definition as_CourseState :: "json \<Rightarrow> CourseState option" where
  "as_CourseState v =
     (case v of
        J_object kvs \<Rightarrow>
          do {
            u \<leftarrow> as_string (map_of kvs ''url'');
            name \<leftarrow> as_string (map_of kvs ''courseName'');
            started \<leftarrow> as_string (map_of kvs ''startedAt'');
            updated \<leftarrow> as_string (map_of kvs ''lastUpdated'');
            ls \<leftarrow> (case map_of kvs ''lessons'' of
                    Some (J_array es) \<Rightarrow> those (map as_LessonState es)
                  | _ \<Rightarrow> None);
            Some \<lparr>url = u, courseName = name, startedAt = started, lastUpdated = updated,
                  lessons = ls\<rparr>
          }
      | _ \<Rightarrow> None)"

section \<open>Calls into the Node runtime\<close>

text \<open>
  A call into the runtime either returns or throws; \<open>Throws\<close> carries the error
  as the string it prints as. A promise is fulfilled or rejected. The response
  handler inside \<open>downloadFile\<close> is itself an async function whose promise nobody
  awaits: when it throws, the promise returned by \<open>downloadFile\<close> is not settled by
  the handler, and the outcome is the handler's unhandled rejection.
\<close>

datatype 'a attempt = Returns 'a | Throws string

datatype 'a promise = Fulfilled 'a | Rejected string | Handler_rejected string

record URL =
  protocol :: string
  hostname :: string
  pathname :: string
  search :: string
  href :: string

record Response =
  statusCode :: "nat option"
  location :: "string option"
  content_disposition :: "string option"
  content_type :: "string option"

datatype http_outcome = Got_response Response | Request_error string | Request_timeout

datatype stream_outcome = Stream_finish | Stream_error string | Stream_timeout

datatype exec_outcome = Exec_ok | Exec_failed string "string option"

text \<open>
  The runtime and the libraries the program calls, as functions of their arguments:
  \<^verbatim>\<open>path\<close>, \<^verbatim>\<open>fs/promises\<close>, \<^verbatim>\<open>JSON\<close>, \<^verbatim>\<open>URL\<close>, \<^verbatim>\<open>http(s).get\<close> (the flag says
  https), the piping of a response body into a file, and \<^verbatim>\<open>execa\<close>.
  \<open>JSON_value\<close> is what \<^verbatim>\<open>JSON.parse\<close> does with a text that may be a JSON text, the
  value it returns or the \<^verbatim>\<open>SyntaxError\<close> it throws. \<open>safeFilename\<close> (utils/file-utils.ts, on the
  sanitize-filename package) and \<open>getFilenameFromUrl\<close> (regular expressions,
  \<^verbatim>\<open>decodeURIComponent\<close>) only name output files and are taken as they come.
\<close>

record node =
  path_join :: "string list \<Rightarrow> string"
  path_dirname :: "string \<Rightarrow> string"
  path_basename :: "string \<Rightarrow> string"
  path_extname :: "string \<Rightarrow> string"
  fs_access :: "string \<Rightarrow> unit attempt"
  fs_readFile :: "string \<Rightarrow> string attempt"
  fs_mkdir :: "string \<Rightarrow> unit attempt"
  fs_writeFile :: "string \<Rightarrow> string \<Rightarrow> unit attempt"
  fs_readdir :: "string \<Rightarrow> string list attempt"
  fs_open :: "string \<Rightarrow> unit attempt"
  fs_close :: "string \<Rightarrow> unit attempt"
  JSON_value :: "string \<Rightarrow> json attempt"
  new_URL :: "string \<Rightarrow> URL attempt"
  new_URL_base :: "string \<Rightarrow> string \<Rightarrow> URL attempt"
  http_get :: "bool \<Rightarrow> string \<Rightarrow> string \<Rightarrow> http_outcome"
  pipe :: "string \<Rightarrow> string \<Rightarrow> stream_outcome"
  execa :: "string \<Rightarrow> string list \<Rightarrow> exec_outcome"
  safeFilename :: "string \<Rightarrow> string"
  getFilenameFromUrl :: "string \<Rightarrow> string option \<Rightarrow> string"

section \<open>Loading and saving the ledger\<close>

text \<open>The constructor of the tracker; the clock is read twice for the empty state.\<close>

definition new_ProgressTracker ::
  "node \<Rightarrow> string \<Rightarrow> string \<Rightarrow> string \<Rightarrow> string \<Rightarrow> ProgressTracker" where
  "new_ProgressTracker env started updated stateDir courseSlug =
     \<lparr>state = createEmptyState started updated,
      statePath = path_join env [stateDir, courseSlug @ ''-progress.json''],
      saveTimeout = None\<rparr>"

text \<open>\<^verbatim>\<open>fileExists\<close> (utils/file-utils.ts): \<^verbatim>\<open>fs.access\<close> in a try/catch.\<close>

definition fileExists :: "node \<Rightarrow> string \<Rightarrow> bool" where
  "fileExists env p = (case fs_access env p of Returns ok \<Rightarrow> True | Throws e \<Rightarrow> False)"

definition warn_load :: "string \<Rightarrow> string" where
  "warn_load e = ''Could not load progress state: '' @ e"

text \<open>
  \<^verbatim>\<open>JSON.parse\<close> throws a \<^verbatim>\<open>SyntaxError\<close> on a text that is empty or leaves a bracket
  or a string literal open; what it does with any other text is up to the runtime.
\<close>

definition JSON_parse :: "node \<Rightarrow> string \<Rightarrow> json attempt" where
  "JSON_parse env text =
     (if balanced text then JSON_value env text
      else Throws ''SyntaxError: Unexpected end of JSON input'')"

text \<open>
  \<^verbatim>\<open>this.state = JSON.parse(data)\<close> assigns whatever value was parsed; nothing checks
  it against \<open>CourseState\<close>. A tracker whose state reads as a \<open>CourseState\<close> is
  \<open>Shaped\<close>; one whose state is any other value is \<open>Misshapen\<close> and holds that value.
\<close>

record RawTracker =
  raw_state :: json
  raw_statePath :: string
  raw_saveTimeout :: "nat option"

datatype tracker_object = Shaped ProgressTracker | Misshapen RawTracker

definition assign_state :: "ProgressTracker \<Rightarrow> json \<Rightarrow> tracker_object" where
  "assign_state t v =
     (case as_CourseState v of
        Some s \<Rightarrow> Shaped (t\<lparr>state := s\<rparr>)
      | None \<Rightarrow>
          Misshapen \<lparr>raw_state = v, raw_statePath = statePath t,
                     raw_saveTimeout = saveTimeout t\<rparr>)"

text \<open>
  \<^verbatim>\<open>load()\<close> returns the boolean, the tracker and the warnings logged. A throw in
  \<^verbatim>\<open>readFile\<close> or \<^verbatim>\<open>JSON.parse\<close> happens before the assignment to \<^verbatim>\<open>this.state\<close>
  and lands in the catch block.
\<close>

definition load :: "node \<Rightarrow> ProgressTracker \<Rightarrow> bool \<times> tracker_object \<times> string list" where
  "load env t =
     (if fileExists env (statePath t) then
        (case fs_readFile env (statePath t) of
           Throws e \<Rightarrow> (False, Shaped t, [warn_load e])
         | Returns data \<Rightarrow>
             (case JSON_parse env data of
                Throws e \<Rightarrow> (False, Shaped t, [warn_load e])
              | Returns v \<Rightarrow> (True, assign_state t v, [])))
      else (False, Shaped t, []))"

text \<open>
  \<^verbatim>\<open>addLesson\<close> on a tracker object of either kind. On a misshapen state
  \<^verbatim>\<open>this.state.lessons.find(...)\<close> throws a \<^verbatim>\<open>TypeError\<close> unless the state is an object
  with an array under \<^verbatim>\<open>lessons\<close>: reading \<^verbatim>\<open>lessons\<close> of \<^verbatim>\<open>null\<close> throws, reading it
  of any other value without that member gives \<^verbatim>\<open>undefined\<close>, and \<^verbatim>\<open>find\<close> exists on
  arrays only (messages are given without their closing parenthesis, which names the
  property read). The callback \<^verbatim>\<open>l.id === lesson.id\<close> throws on an element that is
  \<^verbatim>\<open>null\<close> and is false on an element without that id.
\<close>

fun id_found :: "string \<Rightarrow> json list \<Rightarrow> bool attempt" where
  "id_found i [] = Returns False"
| "id_found i (e # es) =
     (case e of
        J_null \<Rightarrow> Throws ''TypeError: Cannot read properties of null''
      | J_object kvs \<Rightarrow>
          (if map_of kvs ''id'' = Some (J_string i) then Returns True else id_found i es)
      | _ \<Rightarrow> id_found i es)"

definition lessons_array :: "json \<Rightarrow> json list attempt" where
  "lessons_array v =
     (case v of
        J_null \<Rightarrow> Throws ''TypeError: Cannot read properties of null''
      | J_object kvs \<Rightarrow>
          (case map_of kvs ''lessons'' of
             None \<Rightarrow> Throws ''TypeError: Cannot read properties of undefined''
           | Some J_null \<Rightarrow> Throws ''TypeError: Cannot read properties of null''
           | Some (J_array es) \<Rightarrow> Returns es
           | Some other \<Rightarrow> Throws ''TypeError: this.state.lessons.find is not a function'')
      | _ \<Rightarrow> Throws ''TypeError: Cannot read properties of undefined'')"

fun push_into :: "json \<Rightarrow> (string \<times> json) list \<Rightarrow> (string \<times> json) list" where
  "push_into new [] = []"
| "push_into new (kv # kvs) =
     (if fst kv = ''lessons'' then
        (case snd kv of
           J_array es \<Rightarrow> (fst kv, J_array (es @ [new])) # kvs
         | _ \<Rightarrow> kv # kvs)
      else kv # push_into new kvs)"

definition push_lesson :: "json \<Rightarrow> json \<Rightarrow> json" where
  "push_lesson v new = (case v of J_object kvs \<Rightarrow> J_object (push_into new kvs) | _ \<Rightarrow> v)"

definition addLesson_on :: "tracker_object \<Rightarrow> LessonInfo \<Rightarrow> tracker_object attempt" where
  "addLesson_on obj lesson =
     (case obj of
        Shaped t \<Rightarrow> Returns (Shaped (addLesson t lesson))
      | Misshapen r \<Rightarrow>
          (case lessons_array (raw_state r) of
             Throws e \<Rightarrow> Throws e
           | Returns es \<Rightarrow>
               (case id_found (idL lesson) es of
                  Throws e \<Rightarrow> Throws e
                | Returns found \<Rightarrow>
                    (if found then Returns obj
                     else Returns
                            (Misshapen
                               (r\<lparr>raw_state :=
                                    push_lesson (raw_state r)
                                      (lesson_json (pending_record lesson)),
                                  raw_saveTimeout := Some 1000\<rparr>))))))"



section \<open>The media executor (src/downloader/yt-dlp-wrapper.ts)\<close>

record DownloadOptions =
  url_o :: string
  outputPath_o :: string
  provider :: string
  cookiesFile_o :: "string option"
  downloadSubs_o :: bool
  subsLang_o :: string
  referer_o :: "string option"

record VideoResult =
  success_v :: bool
  outputFile_v :: "string option"
  error_v :: "string option"

definition cookie_args :: "DownloadOptions \<Rightarrow> string list" where
  "cookie_args options =
     (if truthy (cookiesFile_o options) then [''--cookies'', the (cookiesFile_o options)] else [])"

definition provider_args :: "DownloadOptions \<Rightarrow> string list" where
  "provider_args options =
     (if provider options = ''wistia'' then
        cookie_args options @
        [''--referer'', or_else (referer_o options) ''https://www.skool.com/'']
      else if provider options = ''vimeo'' then
        cookie_args options @
        (if truthy (referer_o options) then [''--referer'', the (referer_o options)] else [])
      else if provider options = ''youtube'' then
        [''--cookies-from-browser'', ''chrome'']
      else if provider options = ''loom'' then
        cookie_args options
      else if provider options = ''native'' then
        cookie_args options @
        [''--referer'', ''https://www.skool.com/'',
         ''--add-header'',
         ''User-Agent: Mozilla/5.0 (Macintosh; Intel Mac OS X 10_15_7) AppleWebKit/537.36'']
      else cookie_args options)"

definition buildArgs :: "DownloadOptions \<Rightarrow> string list" where
  "buildArgs options =
     [''-o'', outputPath_o options @ ''.%(ext)s'',
      ''-f'', ''bestvideo+bestaudio/best'',
      ''--merge-output-format'', ''mp4'',
      ''--no-playlist''] @
     (if downloadSubs_o options
      then [''--write-subs'', ''--sub-langs'', subsLang_o options, ''--embed-subs'']
      else []) @
     provider_args options @
     [''--progress'', ''--newline'', ''--no-overwrites'',
      ''--retries'', ''3'', ''--fragment-retries'', ''3'',
      url_o options]"

text \<open>\<^verbatim>\<open>findOutputFile\<close>: the first directory entry that starts with the base name.\<close>

definition findOutputFile :: "node \<Rightarrow> string \<Rightarrow> string option" where
  "findOutputFile env basePath =
     (let dir = path_dirname env basePath; basename = path_basename env basePath
      in case fs_readdir env dir of
           Throws e \<Rightarrow> None
         | Returns files \<Rightarrow>
             (case find (\<lambda>f. prefix basename f) files of
                Some m \<Rightarrow> (if m \<noteq> [] then Some (path_join env [dir, m]) else None)
              | None \<Rightarrow> None))"

text \<open>
  \<^verbatim>\<open>String.prototype.includes\<close> is \<open>sublist\<close>. The catch block of
  \<open>downloadVideo\<close> rewrites the message by what the tool printed on stderr.
\<close>

definition video_error_message :: "string \<Rightarrow> string option \<Rightarrow> string" where
  "video_error_message message stderr_opt =
     (let stderr = or_else stderr_opt []
      in if stderr \<noteq> [] then
           (if sublist ''Video unavailable'' stderr then ''Video is unavailable or private''
            else if sublist ''403'' stderr then ''Access denied - may need fresh cookies''
            else if sublist ''404'' stderr then ''Video not found''
            else message)
         else message)"

definition downloadVideo :: "node \<Rightarrow> DownloadOptions \<Rightarrow> VideoResult promise" where
  "downloadVideo env options =
     (let args = buildArgs options
      in case execa env ''yt-dlp'' args of
           Exec_ok \<Rightarrow>
             Fulfilled \<lparr>success_v = True,
                        outputFile_v = findOutputFile env (outputPath_o options),
                        error_v = None\<rparr>
         | Exec_failed message stderr \<Rightarrow>
             Fulfilled \<lparr>success_v = False, outputFile_v = None,
                        error_v = Some (video_error_message message stderr)\<rparr>)"

section \<open>The scheduler (src/downloader/download-queue.ts)\<close>

record QueuedDownload =
  lesson :: LessonState
  downloadUrl :: string
  outputPath_q :: string
  cookiesFile :: "string option"
  referer :: "string option"
  downloadSubs :: bool
  subsLang :: string

record DownloadQueue =
  tracker :: ProgressTracker
  completed_q :: nat
  failed_q :: nat
  total_q :: nat

text \<open>The calls one worker makes on the ledger, the file system and the executor.\<close>

datatype call =
    Call_markStarted string
  | Call_ensureDir string
  | Call_downloadVideo DownloadOptions
  | Call_markCompleted string string
  | Call_markFailed string string

definition add_q :: "DownloadQueue \<Rightarrow> DownloadQueue" where
  "add_q q = q\<lparr>total_q := total_q q + 1\<rparr>"

text \<open>Lines 51 to 59 of \<^verbatim>\<open>processDownload\<close>: the options handed to the executor.\<close>

definition worker_options :: "QueuedDownload \<Rightarrow> DownloadOptions" where
  "worker_options download =
     \<lparr>url_o = downloadUrl download,
      outputPath_o = outputPath_q download,
      provider = or_else (videoProvider (lesson download)) ''unknown'',
      cookiesFile_o = cookiesFile download,
      downloadSubs_o = downloadSubs download,
      subsLang_o = subsLang download,
      referer_o = referer download\<rparr>"

text \<open>
  \<^verbatim>\<open>processDownload\<close>: the promise it returns, the queue object afterwards and the
  calls made. \<^verbatim>\<open>ensureDir\<close> is \<^verbatim>\<open>fs.mkdir(dir, {recursive: true})\<close>, awaited
  outside any try block.
\<close>

definition processDownload ::
  "node \<Rightarrow> DownloadQueue \<Rightarrow> QueuedDownload \<Rightarrow> unit promise \<times> DownloadQueue \<times> call list" where
  "processDownload env q download =
     (let i = idL (lesson download);
          dir = path_dirname env (outputPath_q download);
          q1 = q\<lparr>tracker := markStarted (tracker q) i\<rparr>
      in case fs_mkdir env dir of
           Throws e \<Rightarrow> (Rejected e, q1, [Call_markStarted i, Call_ensureDir dir])
         | Returns ok \<Rightarrow>
             (let options = worker_options download;
                  before = [Call_markStarted i, Call_ensureDir dir, Call_downloadVideo options]
              in case downloadVideo env options of
                   Rejected e \<Rightarrow> (Rejected e, q1, before)
                 | Handler_rejected e \<Rightarrow> (Handler_rejected e, q1, before)
                 | Fulfilled result \<Rightarrow>
                     (if success_v result then
                        (let out = or_else (outputFile_v result) (outputPath_q download)
                         in (Fulfilled (),
                             q1\<lparr>tracker := markCompleted (tracker q1) i out,
                                completed_q := completed_q q1 + 1\<rparr>,
                             before @ [Call_markCompleted i out]))
                      else
                        (let err = or_else (error_v result) ''Unknown error''
                         in (Fulfilled (),
                             q1\<lparr>tracker := markFailed (tracker q1) i err,
                                failed_q := failed_q q1 + 1\<rparr>,
                             before @ [Call_markFailed i err])))))"

section \<open>The resource executor (src/downloader/resource-downloader.ts)\<close>

datatype link_type = Pdf | Google_doc | Google_drive | Notion | External | Unknown_link

record ExtractedLink =
  text_k :: string
  url_k :: string
  type_k :: link_type

record FileResult =
  success_f :: bool
  finalPath_f :: "string option"
  error_f :: "string option"
  requiresAuth_f :: "bool option"

record ResourceResult =
  url_r :: string
  success_r :: bool
  outputPath_r :: "string option"
  error_r :: "string option"
  skipped_r :: "bool option"
  skipReason_r :: "string option"

text \<open>
  \<^verbatim>\<open>getExtensionFromContentType\<close>: the part before the first semicolon, trimmed and
  in lower case, looked up in the table. Node hands a header value over as a string
  of the code points 0 to 255, one per byte, which is what a character is here:
  \<^verbatim>\<open>trim\<close> strips the blanks and line ends among them, the no-break space included,
  and \<^verbatim>\<open>toLowerCase\<close> lowers the Latin capitals, the accented ones included.
\<close>

definition is_space :: "char \<Rightarrow> bool" where
  "is_space c =
     (c \<in> set [CHR '' '', CHR 0x09, CHR 0x0A, CHR 0x0B, CHR 0x0C, CHR 0x0D, CHR 0xA0])"

definition trim :: "string \<Rightarrow> string" where
  "trim s = rev (dropWhile is_space (rev (dropWhile is_space s)))"

definition to_lower :: "char \<Rightarrow> char" where
  "to_lower c =
     (let n = (of_char c :: nat)
      in if (65 \<le> n \<and> n \<le> 90) \<or> (192 \<le> n \<and> n \<le> 222 \<and> n \<noteq> 215)
         then char_of (n + 32) else c)"

definition mimeToExt :: "(string \<times> string) list" where
  "mimeToExt =
     [(''application/pdf'', ''.pdf''),
      (''application/msword'', ''.doc''),
      (''application/vnd.openxmlformats-officedocument.wordprocessingml.document'', ''.docx''),
      (''application/vnd.ms-excel'', ''.xls''),
      (''application/vnd.openxmlformats-officedocument.spreadsheetml.sheet'', ''.xlsx''),
      (''application/vnd.ms-powerpoint'', ''.ppt''),
      (''application/vnd.openxmlformats-officedocument.presentationml.presentation'', ''.pptx''),
      (''application/zip'', ''.zip''),
      (''application/x-zip-compressed'', ''.zip''),
      (''text/plain'', ''.txt''),
      (''text/html'', ''.html''),
      (''text/markdown'', ''.md''),
      (''image/png'', ''.png''),
      (''image/jpeg'', ''.jpg''),
      (''image/gif'', ''.gif''),
      (''image/webp'', ''.webp''),
      (''application/json'', ''.json'')]"

text \<open>
  \<^verbatim>\<open>mimeToExt[baseMime] || ''\<close> on an object literal also finds what the object
  inherits. Of the names \<^verbatim>\<open>Object.prototype\<close> has, two are in lower case and can be
  the result of \<^verbatim>\<open>toLowerCase\<close>; their values are truthy, and appended to the output
  path they read as below.
\<close>

definition inherited :: "(string \<times> string) list" where
  "inherited =
     [(''constructor'', ''function Object() { [native code] }''),
      (''__proto__'', ''[object Object]'')]"

definition getExtensionFromContentType :: "string \<Rightarrow> string" where
  "getExtensionFromContentType contentType =
     (let baseMime = map to_lower (trim (takeWhile (\<lambda>c. c \<noteq> CHR '';'') contentType))
      in case map_of mimeToExt baseMime of
           Some ext \<Rightarrow> ext
         | None \<Rightarrow> (case map_of inherited baseMime of Some ext \<Rightarrow> ext | None \<Rightarrow> []))"

text \<open>Lines 143 to 160 of \<open>downloadFile\<close>: the path the body is written to.\<close>

definition choose_finalPath :: "node \<Rightarrow> string \<Rightarrow> string \<Rightarrow> Response \<Rightarrow> string" where
  "choose_finalPath env u out r =
     (if path_extname env out = [] then
        (let urlFilename = getFilenameFromUrl env u (content_disposition r)
         in if urlFilename \<noteq> [] \<and> path_extname env urlFilename \<noteq> []
            then out @ path_extname env urlFilename
            else (let ext = getExtensionFromContentType (or_else (content_type r) [])
                  in if ext \<noteq> [] then out @ ext else out))
      else out)"

definition failure :: "string \<Rightarrow> FileResult" where
  "failure msg =
     \<lparr>success_f = False, finalPath_f = None, error_f = Some msg, requiresAuth_f = None\<rparr>"

text \<open>
  What the response handler does with a response it does not follow as a
  redirect (lines 127 to 179). The status checks come first; any other status,
  a \<open>3xx\<close> included, reaches the code that writes the body to disk.
\<close>

definition receive_body :: "node \<Rightarrow> string \<Rightarrow> string \<Rightarrow> Response \<Rightarrow> FileResult promise" where
  "receive_body env u out r =
     (if statusCode r = Some 401 \<or> statusCode r = Some 403 then
        Fulfilled \<lparr>success_f = False, finalPath_f = None,
                   error_f = Some ''Authentication required'', requiresAuth_f = Some True\<rparr>
      else if statusCode r = Some 404 then
        Fulfilled (failure ''File not found (404)'')
      else if (case statusCode r of None \<Rightarrow> False | Some c \<Rightarrow> c \<noteq> 0 \<and> c \<ge> 400) then
        Fulfilled (failure (''HTTP '' @ show_nat (the (statusCode r))))
      else
        (let finalPath = choose_finalPath env u out r
         in case fs_mkdir env (path_dirname env finalPath) of
              Throws e \<Rightarrow> Handler_rejected e
            | Returns ok \<Rightarrow>
                (case fs_open env finalPath of
                   Throws e \<Rightarrow> Handler_rejected e
                 | Returns ok \<Rightarrow>
                     (case pipe env u finalPath of
                        Stream_finish \<Rightarrow>
                          (case fs_close env finalPath of
                             Throws e \<Rightarrow> Handler_rejected e
                           | Returns ok \<Rightarrow>
                               Fulfilled \<lparr>success_f = True, finalPath_f = Some finalPath,
                                          error_f = None, requiresAuth_f = None\<rparr>)
                      | Stream_error msg \<Rightarrow>
                          (case fs_close env finalPath of
                             Throws e \<Rightarrow> Handler_rejected e
                           | Returns ok \<Rightarrow> Fulfilled (failure msg))
                      | Stream_timeout \<Rightarrow> Fulfilled (failure ''Download timeout'')))))"

definition is_3xx :: "Response \<Rightarrow> bool" where
  "is_3xx r = (case statusCode r of None \<Rightarrow> False | Some c \<Rightarrow> c \<noteq> 0 \<and> c \<ge> 300 \<and> c < 400)"

text \<open>
  \<open>downloadFile\<close>. \<^verbatim>\<open>new URL(url)\<close> runs inside the executor of
  \<^verbatim>\<open>new Promise\<close>, so its throw rejects the promise. The request then ends in a
  response, an \<^verbatim>\<open>'error'\<close> event or the 30 s timeout. \<open>followRedirects\<close> is the
  number of hops still allowed; every call site passes the default 5 or one less
  than a positive value.
\<close>

fun downloadFile :: "node \<Rightarrow> string \<Rightarrow> string \<Rightarrow> nat \<Rightarrow> FileResult promise" where
  "downloadFile env u out followRedirects =
     (case new_URL env u of
        Throws e \<Rightarrow> Rejected e
      | Returns urlObj \<Rightarrow>
          (case http_get env (protocol urlObj = ''https:'') (hostname urlObj)
                  (pathname urlObj @ search urlObj) of
             Request_error msg \<Rightarrow> Fulfilled (failure msg)
           | Request_timeout \<Rightarrow> Fulfilled (failure ''Download timeout'')
           | Got_response r \<Rightarrow>
               (if is_3xx r then
                  (if truthy (location r) \<and> followRedirects > 0 then
                     (case new_URL_base env (the (location r)) u of
                        Throws e \<Rightarrow> Handler_rejected e
                      | Returns absolute \<Rightarrow>
                          (case downloadFile env (href absolute) out (followRedirects - 1) of
                             Fulfilled result \<Rightarrow> Fulfilled result
                           | Rejected e \<Rightarrow> Handler_rejected e
                           | Handler_rejected e \<Rightarrow> Handler_rejected e))
                   else receive_body env u out r)
                else receive_body env u out r)))"

declare downloadFile.simps [simp del]

text \<open>\<^verbatim>\<open>getGoogleDriveDirectUrl\<close> (crawler/content-extractor.ts): the three patterns in turn.\<close>

definition id_char :: "char \<Rightarrow> bool" where
  "id_char c =
     (let n = (of_char c :: nat)
      in (97 \<le> n \<and> n \<le> 122) \<or> (65 \<le> n \<and> n \<le> 90) \<or> (48 \<le> n \<and> n \<le> 57)
         \<or> c = CHR ''_'' \<or> c = CHR ''-'')"

fun match_after :: "string \<Rightarrow> string \<Rightarrow> string option" where
  "match_after lit [] = None"
| "match_after lit (c # cs) =
     (if prefix lit (c # cs) \<and> takeWhile id_char (drop (length lit) (c # cs)) \<noteq> []
      then Some (takeWhile id_char (drop (length lit) (c # cs)))
      else match_after lit cs)"

definition getGoogleDriveDirectUrl :: "string \<Rightarrow> string option" where
  "getGoogleDriveDirectUrl u =
     (case match_after ''/file/d/'' u of
        Some fileId \<Rightarrow> Some (''https://drive.google.com/uc?export=download&id='' @ fileId)
      | None \<Rightarrow>
          (case match_after ''id='' u of
             Some fileId \<Rightarrow> Some (''https://drive.google.com/uc?export=download&id='' @ fileId)
           | None \<Rightarrow>
               (case match_after ''/d/'' u of
                  Some fileId \<Rightarrow>
                    Some (''https://drive.google.com/uc?export=download&id='' @ fileId)
                | None \<Rightarrow> None)))"

text \<open>\<^verbatim>\<open>String.prototype.replace\<close> with a string pattern replaces the first occurrence.\<close>

fun replace_first :: "string \<Rightarrow> string \<Rightarrow> string \<Rightarrow> string" where
  "replace_first pat rep [] = (if pat = [] then rep else [])"
| "replace_first pat rep (c # cs) =
     (if prefix pat (c # cs) then rep @ drop (length pat) (c # cs)
      else c # replace_first pat rep cs)"

definition getDropboxDirectUrl :: "string \<Rightarrow> string" where
  "getDropboxDirectUrl u =
     replace_first ''www.dropbox.com'' ''dl.dropboxusercontent.com''
       (replace_first ''dl=0'' ''dl=1'' u)"

text \<open>Lines 202 to 212 of \<open>downloadResource\<close>: the URL that is fetched.\<close>

definition direct_downloadUrl :: "ExtractedLink \<Rightarrow> string" where
  "direct_downloadUrl link =
     (if type_k link = Google_drive \<or> type_k link = Google_doc then
        (case getGoogleDriveDirectUrl (url_k link) of
           Some directUrl \<Rightarrow> (if directUrl \<noteq> [] then directUrl else url_k link)
         | None \<Rightarrow> url_k link)
      else if sublist ''dropbox.com'' (url_k link) then getDropboxDirectUrl (url_k link)
      else url_k link)"

definition resource_basePath :: "node \<Rightarrow> ExtractedLink \<Rightarrow> string \<Rightarrow> nat \<Rightarrow> string" where
  "resource_basePath env link outputDir index =
     (let safeTitle =
            (if safeFilename env (text_k link) \<noteq> [] then safeFilename env (text_k link)
             else ''resource_'' @ show_nat (index + 1))
      in path_join env [outputDir, ''resources'', safeTitle])"

definition downloadResource ::
  "node \<Rightarrow> ExtractedLink \<Rightarrow> string \<Rightarrow> nat \<Rightarrow> ResourceResult promise" where
  "downloadResource env link outputDir index =
     (let downloadUrl = direct_downloadUrl link
      in if type_k link = Notion then
           Fulfilled \<lparr>url_r = url_k link, success_r = False, outputPath_r = None,
                      error_r = None, skipped_r = Some True,
                      skipReason_r =
                        Some ''Notion pages cannot be directly downloaded (link preserved in content)''\<rparr>
         else
           (case downloadFile env downloadUrl (resource_basePath env link outputDir index) 5 of
              Rejected e \<Rightarrow> Rejected e
            | Handler_rejected e \<Rightarrow> Handler_rejected e
            | Fulfilled result \<Rightarrow>
                (if requiresAuth_f result = Some True then
                   Fulfilled \<lparr>url_r = url_k link, success_r = False, outputPath_r = None,
                              error_r = None, skipped_r = Some True,
                              skipReason_r = Some ''Requires authentication''\<rparr>
                 else if \<not> success_f result then
                   Fulfilled \<lparr>url_r = url_k link, success_r = False, outputPath_r = None,
                              error_r = error_f result, skipped_r = None,
                              skipReason_r = None\<rparr>
                 else
                   Fulfilled \<lparr>url_r = url_k link, success_r = True,
                              outputPath_r = finalPath_f result, error_r = None,
                              skipped_r = None, skipReason_r = None\<rparr>)))"

section \<open>Properties the specification names\<close>

text \<open>
  Eligibility for (re)scheduling in the words of the specification: pending, or failed
  with fewer than \<open>maxAttempts\<close> attempts.
\<close>

definition maxAttempts :: int where
  "maxAttempts = 3"

definition eligible :: "LessonState \<Rightarrow> bool" where
  "eligible l = (status l = Pending \<or> (status l = Failed \<and> attempts l < maxAttempts))"


text \<open>
  No record loses attempts between two ledgers: records keep their position in the
  array, records are only ever appended.
\<close>

definition attempts_never_decrease :: "LessonState list \<Rightarrow> LessonState list \<Rightarrow> bool" where
  "attempts_never_decrease old new =
     (length old \<le> length new \<and>
      list_all (\<lambda>(a, b). attempts a \<le> attempts b) (zip old new))"

definition sets_attempts :: "field_update \<Rightarrow> bool" where
  "sets_attempts f = (case f of Set_attempts v \<Rightarrow> True | _ \<Rightarrow> False)"

text \<open>The position of the first record with the given id, the one the ledger works on.\<close>

definition first_index :: "string \<Rightarrow> LessonState list \<Rightarrow> nat" where
  "first_index i ls = length (takeWhile (\<lambda>l. idL l \<noteq> i) ls)"

text \<open>A count that a JavaScript number can still raise by one.\<close>

definition can_count_up :: "int \<Rightarrow> bool" where
  "can_count_up n = (- 9007199254740992 \<le> n \<and> n < 9007199254740992)"

definition is_terminal_call :: "call \<Rightarrow> bool" where
  "is_terminal_call c =
     (case c of Call_markCompleted i p \<Rightarrow> True | Call_markFailed i e \<Rightarrow> True | _ \<Rightarrow> False)"

definition is_markStarted :: "call \<Rightarrow> bool" where
  "is_markStarted c = (case c of Call_markStarted i \<Rightarrow> True | _ \<Rightarrow> False)"

definition is_executor_call :: "call \<Rightarrow> bool" where
  "is_executor_call c = (case c of Call_downloadVideo options \<Rightarrow> True | _ \<Rightarrow> False)"

definition fulfilled_value :: "'a promise \<Rightarrow> 'a option" where
  "fulfilled_value p = (case p of Fulfilled v \<Rightarrow> Some v | _ \<Rightarrow> None)"

text \<open>
  The HTTP response of a resource fetch, in the words of the specification: the fetch
  follows a redirect while hops remain, and the response it does not follow is the
  response of the fetch. \<open>fetch_ends_on env u n r\<close>: fetching \<open>u\<close> with \<open>n\<close> hops
  allowed ends on the response \<open>r\<close>.
\<close>

inductive fetch_ends_on :: "node \<Rightarrow> string \<Rightarrow> nat \<Rightarrow> Response \<Rightarrow> bool" for env :: node where
  answered:
    "new_URL env u = Returns U \<Longrightarrow>
     http_get env (protocol U = ''https:'') (hostname U) (pathname U @ search U) = Got_response r \<Longrightarrow>
     \<not> (is_3xx r \<and> truthy (location r) \<and> 0 < n) \<Longrightarrow>
     fetch_ends_on env u n r"
| redirected:
    "new_URL env u = Returns U \<Longrightarrow>
     http_get env (protocol U = ''https:'') (hostname U) (pathname U @ search U) = Got_response r0 \<Longrightarrow>
     is_3xx r0 \<Longrightarrow> truthy (location r0) \<Longrightarrow>
     new_URL_base env (the (location r0)) u = Returns A \<Longrightarrow>
     fetch_ends_on env (href A) n r \<Longrightarrow>
     fetch_ends_on env u (Suc n) r"

code_pred (modes: i \<Rightarrow> i \<Rightarrow> i \<Rightarrow> o \<Rightarrow> bool, i \<Rightarrow> i \<Rightarrow> i \<Rightarrow> i \<Rightarrow> bool)
  fetch_ends_on .

definition auth_status :: "Response \<Rightarrow> bool" where
  "auth_status r = (statusCode r = Some 401 \<or> statusCode r = Some 403)"

definition auth_required :: FileResult where
  "auth_required =
     \<lparr>success_f = False, finalPath_f = None, error_f = Some ''Authentication required'',
      requiresAuth_f = Some True\<rparr>"

definition skipped_for_auth :: "ExtractedLink \<Rightarrow> ResourceResult" where
  "skipped_for_auth link =
     \<lparr>url_r = url_k link, success_r = False, outputPath_r = None, error_r = None,
      skipped_r = Some True, skipReason_r = Some ''Requires authentication''\<rparr>"

section \<open>Sample inputs\<close>

definition sample_lesson :: "string \<Rightarrow> status \<Rightarrow> int \<Rightarrow> LessonState" where
  "sample_lesson i s a =
     \<lparr>idL = i, moduleIndex = 0, lessonIndex = 0, moduleTitle = ''Module'',
      lessonTitle = ''Lesson'', videoUrl = Some ''https://video.example/v'',
      videoProvider = Some ''vimeo'', outputPath = None, error = None,
      status = s, attempts = a\<rparr>"

definition sample_info :: "string \<Rightarrow> LessonInfo" where
  "sample_info i =
     \<lparr>idL = i, moduleIndex = 0, lessonIndex = 0, moduleTitle = ''Module'',
      lessonTitle = ''Lesson'', videoUrl = None, videoProvider = None,
      outputPath = None, error = None\<rparr>"

text \<open>
  A ledger of seven lessons: two completed, one failed once, two pending, one failed
  three times and one left downloading.
\<close>

definition sample_tracker :: ProgressTracker where
  "sample_tracker =
     \<lparr>state =
        \<lparr>url = ''https://www.skool.com/course/classroom'', courseName = ''Course'',
         startedAt = ''2024-01-01T00:00:00.000Z'', lastUpdated = ''2024-01-01T00:00:00.000Z'',
         lessons =
           [sample_lesson ''a'' Completed 1, sample_lesson ''b'' Completed 1,
            sample_lesson ''c'' Failed 1, sample_lesson ''d'' Pending 0,
            sample_lesson ''e'' Pending 0, sample_lesson ''f'' Failed 3,
            sample_lesson ''g'' Downloading 1]\<rparr>,
      statePath = ''.state/course-progress.json'', saveTimeout = None\<rparr>"

text \<open>A ledger whose state file was edited: the one lesson has \<^verbatim>\<open>2^53\<close> attempts.\<close>

definition edited_tracker :: ProgressTracker where
  "edited_tracker =
     \<lparr>state =
        \<lparr>url = ''https://www.skool.com/course/classroom'', courseName = ''Course'',
         startedAt = ''2024-01-01T00:00:00.000Z'', lastUpdated = ''2024-01-01T00:00:00.000Z'',
         lessons = [sample_lesson ''a'' Failed 9007199254740992]\<rparr>,
      statePath = ''.state/course-progress.json'', saveTimeout = None\<rparr>"

text \<open>
  A runtime for the examples: paths are handled naively, every file-system call
  succeeds, the state file on disk has been emptied by hand to \<^verbatim>\<open>{}\<close>, the URL parser
  accepts the strings that start with \<^verbatim>\<open>http://files.example\<close> and rejects the rest,
  the server answers every request with a PDF and the media tool exits normally.
\<close>

definition sample_URL :: "string \<Rightarrow> URL attempt" where
  "sample_URL s =
     (if prefix ''http://files.example'' s
      then Returns \<lparr>protocol = ''http:'', hostname = ''files.example'',
                    pathname = drop 20 s, search = [], href = s\<rparr>
      else Throws ''TypeError: Invalid URL'')"

definition sample_node :: node where
  "sample_node =
     \<lparr>path_join = (\<lambda>ps. foldr (\<lambda>a b. if b = [] then a else a @ ''/'' @ b) ps []),
      path_dirname = (\<lambda>p. rev (drop 1 (dropWhile (\<lambda>c. c \<noteq> CHR ''/'') (rev p)))),
      path_basename = (\<lambda>p. rev (takeWhile (\<lambda>c. c \<noteq> CHR ''/'') (rev p))),
      path_extname = (\<lambda>p. []),
      fs_access = (\<lambda>p. Returns ()),
      fs_readFile = (\<lambda>p. Returns ''{}''),
      fs_mkdir = (\<lambda>p. Returns ()),
      fs_writeFile = (\<lambda>p d. Returns ()),
      fs_readdir = (\<lambda>p. Returns []),
      fs_open = (\<lambda>p. Returns ()),
      fs_close = (\<lambda>p. Returns ()),
      JSON_value = (\<lambda>text. if text = ''{}'' then Returns (J_object [])
                            else Throws ''SyntaxError: Unexpected token''),
      new_URL = sample_URL,
      new_URL_base = (\<lambda>rel base. sample_URL rel),
      http_get = (\<lambda>secure host path.
         Got_response \<lparr>statusCode = Some 200, location = None,
                        content_disposition = None,
                        content_type = Some ''application/pdf''\<rparr>),
      pipe = (\<lambda>u p. Stream_finish),
      execa = (\<lambda>file args. Exec_ok),
      safeFilename = (\<lambda>s. s),
      getFilenameFromUrl = (\<lambda>u cd. [])\<rparr>"


text \<open>A server that answers every request with a redirect to the same address.\<close>

definition looping_node :: node where
  "looping_node =
     sample_node\<lparr>http_get := (\<lambda>secure host path.
        Got_response \<lparr>statusCode = Some 302, location = Some ''http://files.example/loop'',
                       content_disposition = None, content_type = None\<rparr>)\<rparr>"

text \<open>A server that answers 403.\<close>

definition forbidden_node :: node where
  "forbidden_node =
     sample_node\<lparr>http_get := (\<lambda>secure host path.
        Got_response \<lparr>statusCode = Some 403, location = None,
                       content_disposition = None, content_type = None\<rparr>)\<rparr>"

text \<open>A server that redirects the workbook to an address it answers with 403.\<close>

definition moved_node :: node where
  "moved_node =
     sample_node\<lparr>http_get := (\<lambda>secure host path.
        if path = ''/workbook''
        then Got_response \<lparr>statusCode = Some 302,
                            location = Some ''http://files.example/private'',
                            content_disposition = None, content_type = None\<rparr>
        else Got_response \<lparr>statusCode = Some 403, location = None,
                            content_disposition = None, content_type = None\<rparr>)\<rparr>"

text \<open>A file system on which no directory can be created.\<close>

definition readonly_node :: node where
  "readonly_node = sample_node\<lparr>fs_mkdir := (\<lambda>p. Throws ''Error: EACCES: permission denied'')\<rparr>"

definition sample_link :: ExtractedLink where
  "sample_link = \<lparr>text_k = ''Workbook'', url_k = ''http://files.example/workbook'', type_k = Pdf\<rparr>"

text \<open>A link whose \<^verbatim>\<open>href\<close> attribute is relative, as the content extractor collects it.\<close>

definition relative_link :: ExtractedLink where
  "relative_link = \<lparr>text_k = ''Guide'', url_k = ''/files/guide.pdf'', type_k = Pdf\<rparr>"

definition sample_download :: QueuedDownload where
  "sample_download =
     \<lparr>lesson = sample_lesson ''d'' Pending 0,
      downloadUrl = ''https://video.example/v'',
      outputPath_q = ''downloads/Course/01_Module/01_Lesson'',
      cookiesFile = Some ''.state/cookies.txt'', referer = None,
      downloadSubs = False, subsLang = ''en''\<rparr>"

definition sample_queue :: DownloadQueue where
  "sample_queue = \<lparr>tracker = sample_tracker, completed_q = 0, failed_q = 0, total_q = 1\<rparr>"

section \<open>Facts about the ledger\<close>

lemmas sample_defs = sample_tracker_def sample_lesson_def sample_info_def

lemma find_append_one:
  "find P (xs @ [y]) =
     (case find P xs of Some z \<Rightarrow> Some z | None \<Rightarrow> if P y then Some y else None)"
  by (induction xs) auto

lemma count_partition:
  "length (filter (\<lambda>l. status l = Completed) ls)
   + length (filter (\<lambda>l. status l = Failed) ls)
   + length (filter (\<lambda>l. status l = Pending) ls)
   + length (filter (\<lambda>l. status l = Skipped) ls)
   + length (filter (\<lambda>l. status l = Downloading) ls) = length ls"
proof (induction ls)
  case Nil
  then show ?case by simp
next
  case (Cons l ls)
  then show ?case by (cases "status l") simp_all
qed

text \<open>
  C1. \<open>getPendingLessons\<close> returns exactly the eligible records of the ledger (pending,
  or failed with fewer than three attempts), each as often as it occurs and in the
  order of the ledger; a record of the ledger is returned if and only if it is
  pending or failed with \<open>attempts < 3\<close>, and no completed, skipped or downloading
  record is ever returned.
\<close>

theorem getPendingLessons_exact:
  "getPendingLessons t = filter eligible (lessons (state t))
   \<and> subseq (getPendingLessons t) (lessons (state t))
   \<and> (\<forall>l \<in> set (lessons (state t)).
         l \<in> set (getPendingLessons t) \<longleftrightarrow>
           status l = Pending \<or> (status l = Failed \<and> attempts l < 3))
   \<and> (\<forall>l \<in> set (getPendingLessons t).
         status l \<noteq> Completed \<and> status l \<noteq> Skipped \<and> status l \<noteq> Downloading)"
  by (auto simp: getPendingLessons_def eligible_def [abs_def] maxAttempts_def)

theorem getPendingLessons_exact_witness:
  "map idL (getPendingLessons sample_tracker) = [''c'', ''d'', ''e'']
   \<and> sample_lesson ''c'' Failed 1 \<in> set (getPendingLessons sample_tracker)
   \<and> sample_lesson ''f'' Failed 3 \<notin> set (getPendingLessons sample_tracker)
   \<and> status (sample_lesson ''c'' Failed 1) \<noteq> Completed"
  using getPendingLessons_exact [of sample_tracker]
  by (simp add: sample_defs eligible_def maxAttempts_def)

text \<open>
  C4. \<open>addLesson\<close> with an id that is already in the ledger returns the tracker as it
  was: no record is added, no status or attempt count changes, and no save is
  scheduled. Hence calling it twice with the same record is the same as calling it once.
\<close>

theorem addLesson_idempotent:
  "(idL x \<in> idL ` set (lessons (state t)) \<longrightarrow> addLesson t x = t)
   \<and> addLesson (addLesson t x) x = addLesson t x"
proof -
  have known: "addLesson t x = t" if "idL x \<in> idL ` set (lessons (state t))"
  proof -
    from that have "find (\<lambda>l. idL l = idL x) (lessons (state t)) \<noteq> None"
      by (auto simp: find_None_iff)
    then show ?thesis by (auto simp: addLesson_def)
  qed
  have twice: "addLesson (addLesson t x) x = addLesson t x"
    by (cases "find (\<lambda>l. idL l = idL x) (lessons (state t))")
       (simp_all add: addLesson_def scheduleSave_def find_append_one pending_record_def
          LessonInfo.defs LessonState.defs)
  from known twice show ?thesis by blast
qed

theorem addLesson_idempotent_witness:
  "idL (sample_info ''c'') \<in> idL ` set (lessons (state sample_tracker))
   \<and> addLesson sample_tracker (sample_info ''c'') = sample_tracker
   \<and> map status (lessons (state (addLesson sample_tracker (sample_info ''c''))))
       = [Completed, Completed, Failed, Pending, Pending, Failed, Downloading]
   \<and> map attempts (lessons (state (addLesson sample_tracker (sample_info ''c''))))
       = [1, 1, 1, 0, 0, 3, 1]"
proof -
  have h: "idL (sample_info ''c'') \<in> idL ` set (lessons (state sample_tracker))"
    by (simp add: sample_defs)
  with addLesson_idempotent [of "sample_info ''c''" sample_tracker]
  have "addLesson sample_tracker (sample_info ''c'') = sample_tracker" by blast
  with h show ?thesis by (simp add: sample_defs)
qed

text \<open>
  C10. A lesson whose status is \<open>Downloading\<close> is not returned by
  \<open>getPendingLessons\<close>, hence not enqueued by the resume command, and it is counted in
  none of the four buckets of \<open>getStats\<close>: completed, failed, pending and skipped add
  up to the total minus the number of downloading lessons.
\<close>

theorem downloading_never_rescheduled:
  "(\<forall>l \<in> set (lessons (state t)). status l = Downloading \<longrightarrow>
        l \<notin> set (getPendingLessons t) \<and> l \<notin> set (resume_enqueued t))
   \<and> completed_s (getStats t) + failed_s (getStats t) + pending_s (getStats t)
       + skipped_s (getStats t)
     = total_s (getStats t) - length (filter (\<lambda>l. status l = Downloading) (lessons (state t)))
   \<and> length (filter (\<lambda>l. status l = Downloading) (lessons (state t))) \<le> total_s (getStats t)"
proof -
  let ?ls = "lessons (state t)"
  have "\<forall>l \<in> set ?ls. status l = Downloading \<longrightarrow>
        l \<notin> set (getPendingLessons t) \<and> l \<notin> set (resume_enqueued t)"
    by (auto simp: getPendingLessons_def resume_enqueued_def)
  moreover from count_partition [of ?ls]
  have "completed_s (getStats t) + failed_s (getStats t) + pending_s (getStats t)
       + skipped_s (getStats t)
     = total_s (getStats t) - length (filter (\<lambda>l. status l = Downloading) ?ls)"
    by (simp add: getStats_def Let_def)
  moreover have "length (filter (\<lambda>l. status l = Downloading) ?ls) \<le> total_s (getStats t)"
    by (simp add: getStats_def Let_def)
  ultimately show ?thesis by blast
qed

theorem downloading_never_rescheduled_witness:
  "sample_lesson ''g'' Downloading 1 \<in> set (lessons (state sample_tracker))
   \<and> status (sample_lesson ''g'' Downloading 1) = Downloading
   \<and> sample_lesson ''g'' Downloading 1 \<notin> set (getPendingLessons sample_tracker)
   \<and> sample_lesson ''g'' Downloading 1 \<notin> set (resume_enqueued sample_tracker)
   \<and> completed_s (getStats sample_tracker) + failed_s (getStats sample_tracker)
      + pending_s (getStats sample_tracker) + skipped_s (getStats sample_tracker) = 6
   \<and> total_s (getStats sample_tracker) = 7"
proof -
  have h: "sample_lesson ''g'' Downloading 1 \<in> set (lessons (state sample_tracker))"
    "status (sample_lesson ''g'' Downloading 1) = Downloading"
    by (simp_all add: sample_defs)
  have n: "length (filter (\<lambda>l. status l = Downloading) (lessons (state sample_tracker))) = 1"
    "total_s (getStats sample_tracker) = 7"
    by (simp_all add: sample_defs getStats_def)
  from downloading_never_rescheduled [of sample_tracker] h n show ?thesis by auto
qed

section \<open>Facts about the text of a JSON document\<close>




lemma neutral_Nil [simp]: "neutral d []"
  by (simp add: neutral_def)
















section \<open>Facts about loading and saving\<close>

lemma pending_record_simps [simp]:
  "status (pending_record x) = Pending"
  "attempts (pending_record x) = 0"
  "idL (pending_record x) = idL x"
  by (simp_all add: pending_record_def LessonInfo.defs LessonState.defs)








lemma load_misshapen:
  assumes "fileExists env (statePath t)" "fs_readFile env (statePath t) = Returns text"
    "JSON_parse env text = Returns v" "as_CourseState v = None"
  shows "load env t =
     (True, Misshapen \<lparr>raw_state = v, raw_statePath = statePath t,
                        raw_saveTimeout = saveTimeout t\<rparr>, [])"
  using assms by (simp add: load_def assign_state_def)



text \<open>
  C3. A damaged state file that still parses as JSON, such as \<^verbatim>\<open>{}\<close>, is not treated
  as a fresh start: \<open>load\<close> returns true, logs no warning and assigns the parsed value
  to the state unchecked, and when that value has no array under \<^verbatim>\<open>lessons\<close> the next
  \<open>addLesson\<close> throws a \<^verbatim>\<open>TypeError\<close>. (A file on which \<^verbatim>\<open>readFile\<close> or \<^verbatim>\<open>JSON.parse\<close>
  throws is handled as the claim says, lemma \<open>load_unparsed\<close>.)
\<close>

theorem misshapen_state_file_is_loaded:
  assumes "fileExists env (statePath t)" "fs_readFile env (statePath t) = Returns text"
    "JSON_parse env text = Returns v" "as_CourseState v = None"
  shows "load env t =
     (True, Misshapen \<lparr>raw_state = v, raw_statePath = statePath t,
                        raw_saveTimeout = saveTimeout t\<rparr>, [])
     \<and> (lessons_array v = Throws e \<longrightarrow>
          addLesson_on (fst (snd (load env t))) x = Throws e)"
  using load_misshapen [OF assms] by (simp add: addLesson_on_def)


theorem misshapen_state_file_is_loaded_witness:
  "fileExists sample_node ''.state/course-progress.json''
   \<and> fs_readFile sample_node ''.state/course-progress.json'' = Returns ''{}''
   \<and> JSON_parse sample_node ''{}'' = Returns (J_object [])
   \<and> as_CourseState (J_object []) = None
   \<and> fst (load sample_node
        (new_ProgressTracker sample_node ''2024-01-03T00:00:00.000Z'' ''2024-01-03T00:00:00.001Z''
           ''.state'' ''course'')) = True
   \<and> addLesson_on
        (fst (snd (load sample_node
           (new_ProgressTracker sample_node ''2024-01-03T00:00:00.000Z''
              ''2024-01-03T00:00:00.001Z'' ''.state'' ''course''))))
        (sample_info ''a'')
       = Throws ''TypeError: Cannot read properties of undefined''"
proof -
  let ?t = "new_ProgressTracker sample_node ''2024-01-03T00:00:00.000Z''
              ''2024-01-03T00:00:00.001Z'' ''.state'' ''course''"
  have sp: "statePath ?t = ''.state/course-progress.json''"
    by (simp add: new_ProgressTracker_def sample_node_def)
  have h1: "fileExists sample_node ''.state/course-progress.json''"
    by (simp add: fileExists_def sample_node_def)
  have h2: "fs_readFile sample_node ''.state/course-progress.json'' = Returns ''{}''"
    by (simp add: sample_node_def)
  have h3: "JSON_parse sample_node ''{}'' = Returns (J_object [])"
    by (simp add: JSON_parse_def balanced_def sample_node_def)
  have h4: "as_CourseState (J_object []) = None"
    by (simp add: as_CourseState_def as_string_def)
  have h5: "lessons_array (J_object []) = Throws ''TypeError: Cannot read properties of undefined''"
    by (simp add: lessons_array_def)
  from misshapen_state_file_is_loaded [of sample_node ?t "''{}''" "J_object []"
         "''TypeError: Cannot read properties of undefined''" "sample_info ''a''"] h1 h2 h3 h4 h5
  have "load sample_node ?t =
     (True, Misshapen \<lparr>raw_state = J_object [], raw_statePath = statePath ?t,
                        raw_saveTimeout = saveTimeout ?t\<rparr>, [])"
    and "addLesson_on (fst (snd (load sample_node ?t))) (sample_info ''a'')
            = Throws ''TypeError: Cannot read properties of undefined''"
    unfolding sp by blast+
  with h1 h2 h3 h4 show ?thesis by simp
qed






section \<open>Facts about the attempt counter and the scheduler\<close>

lemma never_decrease_refl: "attempts_never_decrease ls ls"
  by (induction ls) (simp_all add: attempts_never_decrease_def)

lemma never_decrease_append: "attempts_never_decrease ls (ls @ xs)"
  by (induction ls) (simp_all add: attempts_never_decrease_def)

lemma never_decrease_Cons:
  "attempts_never_decrease (a # as) (b # bs) \<longleftrightarrow>
     attempts a \<le> attempts b \<and> attempts_never_decrease as bs"
  by (auto simp: attempts_never_decrease_def)

lemma attempts_assign_field:
  "\<not> sets_attempts f \<Longrightarrow> attempts (assign_field l f) = attempts l"
  by (cases f) (simp_all add: sets_attempts_def)

lemma attempts_object_assign:
  "list_all (\<lambda>f. \<not> sets_attempts f) us \<Longrightarrow> attempts (object_assign l us) = attempts l"
  unfolding object_assign_def
  by (induction us arbitrary: l) (simp_all add: attempts_assign_field)

lemma assign_first_never_decrease:
  assumes "\<And>l. find (\<lambda>l. idL l = i) ls = Some l \<Longrightarrow> attempts l \<le> attempts (object_assign l us)"
  shows "attempts_never_decrease ls (assign_first i us ls)"
  using assms
proof (induction ls)
  case Nil
  then show ?case by (simp add: attempts_never_decrease_def)
next
  case (Cons a ls)
  show ?case
  proof (cases "idL a = i")
    case True
    with Cons.prems [of a] show ?thesis
      by (simp add: never_decrease_Cons never_decrease_refl)
  next
    case False
    with Cons show ?thesis by (simp add: never_decrease_Cons)
  qed
qed

lemma updateLesson_never_decrease:
  assumes "\<And>l. getLesson t i = Some l \<Longrightarrow> attempts l \<le> attempts (object_assign l us)"
  shows "attempts_never_decrease (lessons (state t)) (lessons (state (updateLesson t i us)))"
proof (cases "find (\<lambda>l. idL l = i) (lessons (state t))")
  case None
  then show ?thesis by (simp add: updateLesson_def never_decrease_refl)
next
  case (Some l)
  from assms have "attempts_never_decrease (lessons (state t)) (assign_first i us (lessons (state t)))"
    by (intro assign_first_never_decrease) (simp add: getLesson_def)
  with Some show ?thesis by (simp add: updateLesson_def scheduleSave_def)
qed

lemma updateLesson_plain_never_decrease:
  "list_all (\<lambda>f. \<not> sets_attempts f) us \<Longrightarrow>
   attempts_never_decrease (lessons (state t)) (lessons (state (updateLesson t i us)))"
  by (rule updateLesson_never_decrease) (simp add: attempts_object_assign)

lemma double_plus_one_ge: "n \<le> double_plus_one n"
  by (simp add: double_plus_one_def)

lemma double_plus_one_exact: "can_count_up n \<Longrightarrow> double_plus_one n = n + 1"
  by (simp add: double_plus_one_def can_count_up_def)

lemma markStarted_never_decrease:
  "attempts_never_decrease (lessons (state t)) (lessons (state (markStarted t i)))"
  unfolding markStarted_def
  by (rule updateLesson_never_decrease)
     (simp add: object_assign_def or_zero_def double_plus_one_ge)

lemma addLesson_never_decrease:
  "attempts_never_decrease (lessons (state t)) (lessons (state (addLesson t x)))"
  by (cases "find (\<lambda>l. idL l = idL x) (lessons (state t))")
     (simp_all add: addLesson_def scheduleSave_def never_decrease_refl never_decrease_append)

lemma find_assign_first:
  assumes "find (\<lambda>l. idL l = i) ls = Some l" "idL (object_assign l us) = i"
  shows "find (\<lambda>l. idL l = i) (assign_first i us ls) = Some (object_assign l us)"
  using assms by (induction ls) (auto split: if_splits)

lemma getLesson_updateLesson:
  assumes "getLesson t i = Some l" "idL (object_assign l us) = i"
  shows "getLesson (updateLesson t i us) i = Some (object_assign l us)"
  using assms find_assign_first [of i "lessons (state t)" l us]
  by (simp add: getLesson_def updateLesson_def scheduleSave_def)

lemma find_Some_id: "find (\<lambda>l. idL l = i) ls = Some l \<Longrightarrow> idL l = i"
  by (induction ls) (auto split: if_splits)

lemma assign_first_at:
  "find (\<lambda>l. idL l = i) ls = Some l \<Longrightarrow>
   assign_first i us ls = ls[first_index i ls := object_assign l us]"
  by (induction ls) (auto simp: first_index_def split: if_splits)

lemma markStarted_known:
  assumes "getLesson t i = Some l" "can_count_up (attempts l)"
  shows "lessons (state (markStarted t i)) =
           (lessons (state t))[first_index i (lessons (state t)) :=
              l\<lparr>status := Downloading, attempts := attempts l + 1\<rparr>]"
proof -
  let ?us = "[Set_status Downloading, Set_attempts (double_plus_one (or_zero (attempts l)))]"
  have "or_zero (attempts l) = attempts l" by (simp add: or_zero_def)
  with double_plus_one_exact [OF assms(2)]
  have o: "object_assign l ?us = l\<lparr>status := Downloading, attempts := attempts l + 1\<rparr>"
    by (simp add: object_assign_def)
  from assms(1) have f: "find (\<lambda>l. idL l = i) (lessons (state t)) = Some l"
    by (simp add: getLesson_def)
  from assign_first_at [OF f, of ?us] o f assms(1) show ?thesis
    by (simp add: markStarted_def updateLesson_def scheduleSave_def)
qed

lemma markStarted_unknown: "getLesson t i = None \<Longrightarrow> markStarted t i = t"
  by (simp add: markStarted_def updateLesson_def getLesson_def)

lemma map_attempts_assign_first:
  "list_all (\<lambda>f. \<not> sets_attempts f) us \<Longrightarrow>
   map attempts (assign_first i us ls) = map attempts ls"
  by (induction ls) (simp_all add: attempts_object_assign)

lemma map_attempts_updateLesson:
  "list_all (\<lambda>f. \<not> sets_attempts f) us \<Longrightarrow>
   map attempts (lessons (state (updateLesson t i us))) = map attempts (lessons (state t))"
  by (cases "find (\<lambda>l. idL l = i) (lessons (state t))")
     (simp_all add: updateLesson_def scheduleSave_def map_attempts_assign_first)

lemma markFailed_attempts:
  "map attempts (lessons (state (markFailed t i e))) = map attempts (lessons (state t))"
  unfolding markFailed_def by (rule map_attempts_updateLesson) (simp add: sets_attempts_def)

lemma markCompleted_attempts:
  "map attempts (lessons (state (markCompleted t i e))) = map attempts (lessons (state t))"
  unfolding markCompleted_def by (rule map_attempts_updateLesson) (simp add: sets_attempts_def)

lemma downloadVideo_fulfilled: "\<exists>r. downloadVideo env options = Fulfilled r"
  by (cases "execa env ''yt-dlp'' (buildArgs options)") (simp_all add: downloadVideo_def Let_def)

lemma processDownload_mkdir_throws:
  "fs_mkdir env (path_dirname env (outputPath_q d)) = Throws e \<Longrightarrow>
   processDownload env q d =
     (Rejected e, q\<lparr>tracker := markStarted (tracker q) (idL (lesson d))\<rparr>,
      [Call_markStarted (idL (lesson d)), Call_ensureDir (path_dirname env (outputPath_q d))])"
  by (simp add: processDownload_def Let_def)

lemma processDownload_success:
  "fs_mkdir env (path_dirname env (outputPath_q d)) = Returns () \<Longrightarrow>
   downloadVideo env (worker_options d) = Fulfilled r \<Longrightarrow> success_v r \<Longrightarrow>
   processDownload env q d =
     (Fulfilled (),
      q\<lparr>tracker := markCompleted (markStarted (tracker q) (idL (lesson d))) (idL (lesson d))
                     (or_else (outputFile_v r) (outputPath_q d)),
        completed_q := completed_q q + 1\<rparr>,
      [Call_markStarted (idL (lesson d)), Call_ensureDir (path_dirname env (outputPath_q d)),
       Call_downloadVideo (worker_options d),
       Call_markCompleted (idL (lesson d)) (or_else (outputFile_v r) (outputPath_q d))])"
  by (simp add: processDownload_def Let_def)

lemma processDownload_failure:
  "fs_mkdir env (path_dirname env (outputPath_q d)) = Returns () \<Longrightarrow>
   downloadVideo env (worker_options d) = Fulfilled r \<Longrightarrow> \<not> success_v r \<Longrightarrow>
   processDownload env q d =
     (Fulfilled (),
      q\<lparr>tracker := markFailed (markStarted (tracker q) (idL (lesson d))) (idL (lesson d))
                     (or_else (error_v r) ''Unknown error''),
        failed_q := failed_q q + 1\<rparr>,
      [Call_markStarted (idL (lesson d)), Call_ensureDir (path_dirname env (outputPath_q d)),
       Call_downloadVideo (worker_options d),
       Call_markFailed (idL (lesson d)) (or_else (error_v r) ''Unknown error'')])"
  by (simp add: processDownload_def Let_def)

lemma processDownload_invoked:
  assumes "list_ex is_executor_call (snd (snd (processDownload env q d)))"
  shows "(\<exists>c. snd (snd (processDownload env q d)) =
            [Call_markStarted (idL (lesson d)),
             Call_ensureDir (path_dirname env (outputPath_q d)),
             Call_downloadVideo (worker_options d), c] \<and> is_terminal_call c)
     \<and> map attempts (lessons (state (tracker (fst (snd (processDownload env q d))))))
         = map attempts (lessons (state (markStarted (tracker q) (idL (lesson d)))))"
proof (cases "fs_mkdir env (path_dirname env (outputPath_q d))")
  case (Throws e)
  from processDownload_mkdir_throws [OF this, of q] assms show ?thesis
    by (simp add: is_executor_call_def)
next
  case (Returns ok)
  then have m: "fs_mkdir env (path_dirname env (outputPath_q d)) = Returns ()" by simp
  from downloadVideo_fulfilled obtain r
    where r: "downloadVideo env (worker_options d) = Fulfilled r" ..
  show ?thesis
  proof (cases "success_v r")
    case True
    from processDownload_success [OF m r True, of q] show ?thesis
      by (simp add: is_terminal_call_def markCompleted_attempts)
  next
    case False
    from processDownload_failure [OF m r False, of q] show ?thesis
      by (simp add: is_terminal_call_def markFailed_attempts)
  qed
qed

text \<open>
  C8, as the claim states it, fails twice. \<open>updateLesson\<close> is a ledger operation and
  merges an \<^verbatim>\<open>attempts\<close> field verbatim, so it can lower the count (here from 3 to 0);
  and on a record whose count is \<^verbatim>\<open>2^53\<close>, as an edited state file can hold,
  \<open>markStarted\<close> leaves the count where it was, because \<^verbatim>\<open>2^53 + 1\<close> is not a double.
\<close>

theorem attempts_lowered_or_stuck_counterexample:
  "\<not> attempts_never_decrease (lessons (state sample_tracker))
       (lessons (state (updateLesson sample_tracker ''f'' [Set_attempts 0])))
   \<and> map attempts (lessons (state edited_tracker)) = [9007199254740992]
   \<and> map attempts (lessons (state (markStarted edited_tracker ''a''))) = [9007199254740992]"
  by (simp add: attempts_never_decrease_def updateLesson_def markStarted_def getLesson_def
        scheduleSave_def object_assign_def or_zero_def double_plus_one_def
        edited_tracker_def sample_defs)


text \<open>
  C8, amended. For every lesson record, \<open>attempts\<close> never decreases under \<open>addLesson\<close>,
  \<open>initialize\<close>, \<open>markStarted\<close>, \<open>markCompleted\<close>, \<open>markFailed\<close>, \<open>markSkipped\<close>, nor
  under an \<open>updateLesson\<close> whose fields do not include \<^verbatim>\<open>attempts\<close>. \<open>markStarted\<close>
  changes the first record with the id and no other record: while its count is an
  integer below \<^verbatim>\<open>2^53\<close> (and not below \<^verbatim>\<open>-2^53\<close>) the count grows by exactly one and
  the status becomes downloading; on an unknown id the tracker is unchanged. Whenever
  \<open>processDownload\<close> invokes the executor, it has called \<open>markStarted\<close> exactly once,
  before the invocation, the executor is invoked exactly once, one terminal call
  follows, and the counts the run leaves are the counts \<open>markStarted\<close> left.
  \<open>markFailed\<close> leaves every count unchanged.
\<close>

theorem attempts_counted_by_markStarted:
  "attempts_never_decrease (lessons (state t)) (lessons (state (addLesson t x)))
   \<and> attempts_never_decrease (lessons (state t)) (lessons (state (initialize now u name t)))
   \<and> attempts_never_decrease (lessons (state t)) (lessons (state (markStarted t i)))
   \<and> attempts_never_decrease (lessons (state t)) (lessons (state (markCompleted t i p)))
   \<and> attempts_never_decrease (lessons (state t)) (lessons (state (markFailed t i e)))
   \<and> attempts_never_decrease (lessons (state t)) (lessons (state (markSkipped t i e)))
   \<and> (list_all (\<lambda>f. \<not> sets_attempts f) us \<longrightarrow>
        attempts_never_decrease (lessons (state t)) (lessons (state (updateLesson t i us))))
   \<and> (getLesson t i = Some l \<and> can_count_up (attempts l) \<longrightarrow>
        lessons (state (markStarted t i)) =
          (lessons (state t))[first_index i (lessons (state t)) :=
             l\<lparr>status := Downloading, attempts := attempts l + 1\<rparr>])
   \<and> (getLesson t i = None \<longrightarrow> markStarted t i = t)
   \<and> (list_ex is_executor_call (snd (snd (processDownload env q d))) \<longrightarrow>
        (\<exists>c. snd (snd (processDownload env q d)) =
            [Call_markStarted (idL (lesson d)),
             Call_ensureDir (path_dirname env (outputPath_q d)),
             Call_downloadVideo (worker_options d), c] \<and> is_terminal_call c)
        \<and> map attempts (lessons (state (tracker (fst (snd (processDownload env q d))))))
            = map attempts (lessons (state (markStarted (tracker q) (idL (lesson d))))))
   \<and> map attempts (lessons (state (markFailed t i e))) = map attempts (lessons (state t))"
proof -
  have "attempts_never_decrease (lessons (state t)) (lessons (state (initialize now u name t)))"
    by (simp add: initialize_def never_decrease_refl)
  moreover have "attempts_never_decrease (lessons (state t)) (lessons (state (markCompleted t i p)))"
    unfolding markCompleted_def
    by (rule updateLesson_plain_never_decrease) (simp add: sets_attempts_def)
  moreover have "attempts_never_decrease (lessons (state t)) (lessons (state (markFailed t i e)))"
    unfolding markFailed_def
    by (rule updateLesson_plain_never_decrease) (simp add: sets_attempts_def)
  moreover have "attempts_never_decrease (lessons (state t)) (lessons (state (markSkipped t i e)))"
    unfolding markSkipped_def
    by (rule updateLesson_plain_never_decrease) (simp add: sets_attempts_def)
  ultimately show ?thesis
    using addLesson_never_decrease [of t x] markStarted_never_decrease [of t i]
      updateLesson_plain_never_decrease [of us t i] markStarted_known [of t i l]
      markStarted_unknown [of t i] markFailed_attempts [of t i e]
      processDownload_invoked [of env q d]
    by blast
qed


theorem attempts_counted_by_markStarted_witness:
  "list_all (\<lambda>f. \<not> sets_attempts f)
     [Set_videoUrl (Some ''https://video.example/w''), Set_videoProvider (Some ''wistia'')]
   \<and> attempts_never_decrease (lessons (state sample_tracker))
        (lessons (state (updateLesson sample_tracker ''c''
           [Set_videoUrl (Some ''https://video.example/w''), Set_videoProvider (Some ''wistia'')])))
   \<and> getLesson sample_tracker ''c'' = Some (sample_lesson ''c'' Failed 1)
   \<and> can_count_up (attempts (sample_lesson ''c'' Failed 1))
   \<and> map attempts (lessons (state (markStarted sample_tracker ''c''))) = [1, 1, 2, 0, 0, 3, 1]
   \<and> map status (lessons (state (markStarted sample_tracker ''c'')))
       = [Completed, Completed, Downloading, Pending, Pending, Failed, Downloading]
   \<and> getLesson sample_tracker ''z'' = None
   \<and> markStarted sample_tracker ''z'' = sample_tracker
   \<and> list_ex is_executor_call (snd (snd (processDownload sample_node sample_queue sample_download)))
   \<and> map attempts (lessons (state (tracker (fst (snd
         (processDownload sample_node sample_queue sample_download))))))
        = [1, 1, 1, 1, 0, 3, 1]"
proof -
  let ?us = "[Set_videoUrl (Some ''https://video.example/w''), Set_videoProvider (Some ''wistia'')]"
  let ?c = "sample_lesson ''c'' Failed 1"
  note main = attempts_counted_by_markStarted [of sample_tracker _ _ _ _ "''c''" _ _ ?us ?c sample_node sample_queue
               sample_download]
  have h1: "list_all (\<lambda>f. \<not> sets_attempts f) ?us" by (simp add: sets_attempts_def)
  have h2: "getLesson sample_tracker ''c'' = Some ?c" by (simp add: getLesson_def sample_defs)
  have h3: "can_count_up (attempts ?c)" by (simp add: can_count_up_def sample_lesson_def)
  have h4: "getLesson sample_tracker ''z'' = None" by (simp add: getLesson_def sample_defs)
  have h5: "list_ex is_executor_call
              (snd (snd (processDownload sample_node sample_queue sample_download)))"
    by (simp add: processDownload_def downloadVideo_def Let_def is_executor_call_def
          sample_node_def)
  from main h1 have a: "attempts_never_decrease (lessons (state sample_tracker))
        (lessons (state (updateLesson sample_tracker ''c'' ?us)))" by blast
  from main h2 h3 have "lessons (state (markStarted sample_tracker ''c'')) =
          (lessons (state sample_tracker))[first_index ''c'' (lessons (state sample_tracker)) :=
             ?c\<lparr>status := Downloading, attempts := attempts ?c + 1\<rparr>]" by blast
  then have b: "map attempts (lessons (state (markStarted sample_tracker ''c''))) = [1, 1, 2, 0, 0, 3, 1]"
    "map status (lessons (state (markStarted sample_tracker ''c'')))
       = [Completed, Completed, Downloading, Pending, Pending, Failed, Downloading]"
    by (simp_all add: first_index_def sample_defs)
  from attempts_counted_by_markStarted [of sample_tracker _ _ _ _ "''z''"] h4
  have c: "markStarted sample_tracker ''z'' = sample_tracker" by blast
  from main h5 have "map attempts (lessons (state (tracker (fst (snd
         (processDownload sample_node sample_queue sample_download))))))
      = map attempts (lessons (state (markStarted (tracker sample_queue) (idL (lesson sample_download)))))"
    by blast
  then have d: "map attempts (lessons (state (tracker (fst (snd
         (processDownload sample_node sample_queue sample_download))))))
        = [1, 1, 1, 1, 0, 3, 1]"
    by (simp add: markStarted_def updateLesson_def getLesson_def scheduleSave_def
          object_assign_def or_zero_def double_plus_one_def sample_defs sample_queue_def
          sample_download_def)
  from h1 a h2 h3 b h4 c h5 d show ?thesis by blast
qed


text \<open>
  C9. When \<^verbatim>\<open>ensureDir\<close> throws, \<open>processDownload\<close> has called \<open>markStarted\<close> and
  then rejects: the executor is never invoked and neither \<open>markCompleted\<close> nor
  \<open>markFailed\<close> is called, so the processed item gets no terminal call and its record
  stays downloading.
\<close>

theorem processDownload_without_terminal_call:
  assumes "fs_mkdir env (path_dirname env (outputPath_q d)) = Throws e"
  shows "processDownload env q d =
       (Rejected e, q\<lparr>tracker := markStarted (tracker q) (idL (lesson d))\<rparr>,
        [Call_markStarted (idL (lesson d)), Call_ensureDir (path_dirname env (outputPath_q d))])
     \<and> filter is_terminal_call (snd (snd (processDownload env q d))) = []
     \<and> filter is_executor_call (snd (snd (processDownload env q d))) = []"
  using processDownload_mkdir_throws [OF assms, of q]
  by (simp add: is_terminal_call_def is_executor_call_def)


theorem processDownload_without_terminal_call_witness:
  "fs_mkdir readonly_node (path_dirname readonly_node (outputPath_q sample_download))
     = Throws ''Error: EACCES: permission denied''
   \<and> fst (processDownload readonly_node sample_queue sample_download)
       = Rejected ''Error: EACCES: permission denied''
   \<and> snd (snd (processDownload readonly_node sample_queue sample_download))
       = [Call_markStarted ''d'', Call_ensureDir ''downloads/Course/01_Module'']
   \<and> filter is_terminal_call (snd (snd (processDownload readonly_node sample_queue sample_download))) = []
   \<and> map status (lessons (state (tracker (fst (snd (processDownload readonly_node sample_queue sample_download))))))
       = [Completed, Completed, Failed, Downloading, Pending, Failed, Downloading]"
proof -
  have h: "fs_mkdir readonly_node (path_dirname readonly_node (outputPath_q sample_download))
     = Throws ''Error: EACCES: permission denied''"
    by (simp add: readonly_node_def)
  have v: "idL (lesson sample_download) = ''d''"
    "path_dirname readonly_node (outputPath_q sample_download) = ''downloads/Course/01_Module''"
    by (simp_all add: sample_download_def sample_lesson_def readonly_node_def sample_node_def)
  have s: "map status (lessons (state (markStarted (tracker sample_queue) ''d'')))
       = [Completed, Completed, Failed, Downloading, Pending, Failed, Downloading]"
    by (simp add: markStarted_def updateLesson_def getLesson_def scheduleSave_def object_assign_def
          or_zero_def double_plus_one_def sample_defs sample_queue_def)
  from processDownload_without_terminal_call [OF h, of sample_queue]
  have p: "processDownload readonly_node sample_queue sample_download =
       (Rejected ''Error: EACCES: permission denied'',
        sample_queue\<lparr>tracker := markStarted (tracker sample_queue) (idL (lesson sample_download))\<rparr>,
        [Call_markStarted (idL (lesson sample_download)),
         Call_ensureDir (path_dirname readonly_node (outputPath_q sample_download))])"
    and n: "filter is_terminal_call
              (snd (snd (processDownload readonly_node sample_queue sample_download))) = []"
    by blast+
  from h n show ?thesis unfolding p by (simp add: v s)
qed

section \<open>Facts about the resource executor\<close>

lemma receive_body_3xx:
  assumes "is_3xx r"
    "fs_mkdir env (path_dirname env (choose_finalPath env u out r)) = Returns ()"
    "fs_open env (choose_finalPath env u out r) = Returns ()"
    "pipe env u (choose_finalPath env u out r) = Stream_finish"
    "fs_close env (choose_finalPath env u out r) = Returns ()"
  shows "receive_body env u out r =
     Fulfilled \<lparr>success_f = True, finalPath_f = Some (choose_finalPath env u out r),
                error_f = None, requiresAuth_f = None\<rparr>"
proof -
  from assms(1) obtain c where c: "statusCode r = Some c" "300 \<le> c" "c < 400"
    by (auto simp: is_3xx_def split: option.splits)
  then have "c \<noteq> 401" "c \<noteq> 403" "c \<noteq> 404" "\<not> c \<ge> 400" by simp_all
  with c(1) assms(2-) show ?thesis by (simp add: receive_body_def Let_def)
qed

lemma downloadFile_bad_url:
  "new_URL env u = Throws e \<Longrightarrow> downloadFile env u out n = Rejected e"
  by (subst downloadFile.simps) simp

lemma downloadFile_final:
  assumes "new_URL env u = Returns U"
    "http_get env (protocol U = ''https:'') (hostname U) (pathname U @ search U) = Got_response r"
    "\<not> (is_3xx r \<and> truthy (location r) \<and> 0 < n)"
  shows "downloadFile env u out n = receive_body env u out r"
  using assms by (subst downloadFile.simps) auto

lemma downloadFile_redirect:
  assumes "new_URL env u = Returns U"
    "http_get env (protocol U = ''https:'') (hostname U) (pathname U @ search U) = Got_response r"
    "is_3xx r" "truthy (location r)"
    "new_URL_base env (the (location r)) u = Returns A"
    "downloadFile env (href A) out n = Fulfilled res"
  shows "downloadFile env u out (Suc n) = Fulfilled res"
  using assms by (subst downloadFile.simps) simp

lemma direct_sample_link: "direct_downloadUrl sample_link = ''http://files.example/workbook''"
  by code_simp

lemma direct_relative_link: "direct_downloadUrl relative_link = ''/files/guide.pdf''"
  by code_simp

lemma receive_body_auth:
  "statusCode r = Some 401 \<or> statusCode r = Some 403 \<Longrightarrow>
   receive_body env u out r =
     Fulfilled \<lparr>success_f = False, finalPath_f = None,
                error_f = Some ''Authentication required'', requiresAuth_f = Some True\<rparr>"
  by (simp add: receive_body_def)

lemma sample_link_fields:
  "type_k sample_link = Pdf" "url_k sample_link = ''http://files.example/workbook''"
  "text_k sample_link = ''Workbook''"
  by (simp_all add: sample_link_def)


lemma receive_body_auth_required:
  "auth_status r \<Longrightarrow> receive_body env u out r = Fulfilled auth_required"
  by (simp add: receive_body_def auth_status_def auth_required_def)

lemma receive_body_requiresAuth:
  assumes "receive_body env u out r = Fulfilled res" "requiresAuth_f res = Some True"
  shows "auth_status r \<and> res = auth_required"
proof (cases "auth_status r")
  case True
  with receive_body_auth_required [OF True, of env u out] assms(1) show ?thesis by simp
next
  case False
  with assms have False
    by (auto simp: receive_body_def auth_status_def failure_def Let_def
          split: if_splits attempt.splits stream_outcome.splits)
  then show ?thesis ..
qed

lemma auth_not_3xx: "auth_status r \<Longrightarrow> \<not> is_3xx r"
  by (auto simp: auth_status_def is_3xx_def)

lemma fetch_auth_resolves:
  "fetch_ends_on env u n r \<Longrightarrow> auth_status r \<Longrightarrow>
   downloadFile env u out n = Fulfilled auth_required"
proof (induction rule: fetch_ends_on.induct)
  case (answered u U r n)
  from downloadFile_final [OF answered(1,2,3), of out] receive_body_auth_required [OF answered(4)]
  show ?case by simp
next
  case (redirected u U r0 A n r)
  from redirected.IH [OF redirected.prems]
  have "downloadFile env (href A) out n = Fulfilled auth_required" .
  from downloadFile_redirect [OF redirected.hyps(1,2,3,4,5) this] show ?case .
qed

lemma requiresAuth_from_fetch:
  "downloadFile env u out n = Fulfilled res \<Longrightarrow> requiresAuth_f res = Some True \<Longrightarrow>
   res = auth_required \<and> (\<exists>r. fetch_ends_on env u n r \<and> auth_status r)"
proof (induction n arbitrary: u)
  case 0
  from "0.prems"(1) obtain U where U: "new_URL env u = Returns U"
    by (subst (asm) downloadFile.simps) (auto split: attempt.splits)
  from "0.prems"(1) U "0.prems"(2) obtain r
    where g: "http_get env (protocol U = ''https:'') (hostname U) (pathname U @ search U)
                = Got_response r"
    by (subst (asm) downloadFile.simps) (auto simp: failure_def split: http_outcome.splits)
  from downloadFile_final [OF U g, of 0 out] "0.prems"(1)
  have "receive_body env u out r = Fulfilled res" by simp
  from receive_body_requiresAuth [OF this "0.prems"(2)] fetch_ends_on.answered [OF U g, of 0]
  show ?case by blast
next
  case (Suc n)
  from Suc.prems(1) obtain U where U: "new_URL env u = Returns U"
    by (subst (asm) downloadFile.simps) (auto split: attempt.splits)
  from Suc.prems U obtain r
    where g: "http_get env (protocol U = ''https:'') (hostname U) (pathname U @ search U)
                = Got_response r"
    by (subst (asm) downloadFile.simps) (auto simp: failure_def split: http_outcome.splits)
  show ?case
  proof (cases "is_3xx r \<and> truthy (location r)")
    case False
    then have n: "\<not> (is_3xx r \<and> truthy (location r) \<and> 0 < Suc n)" by simp
    from downloadFile_final [OF U g n, of out] Suc.prems(1)
    have "receive_body env u out r = Fulfilled res" by simp
    from receive_body_requiresAuth [OF this Suc.prems(2)] fetch_ends_on.answered [OF U g n]
    show ?thesis by blast
  next
    case True
    with Suc.prems(1) U g obtain A where A: "new_URL_base env (the (location r)) u = Returns A"
      by (subst (asm) downloadFile.simps) (auto split: attempt.splits)
    with Suc.prems(1) U g True have "downloadFile env (href A) out n = Fulfilled res"
      by (subst (asm) downloadFile.simps) (auto split: promise.splits)
    from Suc.IH [OF this Suc.prems(2)] obtain r'
      where r': "res = auth_required" "fetch_ends_on env (href A) n r'" "auth_status r'"
      by blast
    from True fetch_ends_on.redirected [OF U g _ _ A r'(2)] r'(1,3) show ?thesis by blast
  qed
qed

lemma auth_required_flag: "requiresAuth_f auth_required = Some True"
  by (simp add: auth_required_def)

lemma downloadFile_auth_iff:
  "(\<exists>r. fetch_ends_on env u n r \<and> auth_status r)
     \<longleftrightarrow> downloadFile env u out n = Fulfilled auth_required"
  using fetch_auth_resolves requiresAuth_from_fetch [OF _ auth_required_flag] by blast

lemma downloadResource_skipped:
  assumes "type_k link \<noteq> Notion"
    "downloadResource env link outputDir index = Fulfilled res" "skipped_r res = Some True"
  shows "res = skipped_for_auth link
     \<and> downloadFile env (direct_downloadUrl link) (resource_basePath env link outputDir index) 5
         = Fulfilled auth_required"
proof -
  let ?f = "downloadFile env (direct_downloadUrl link) (resource_basePath env link outputDir index) 5"
  from assms obtain result where f: "?f = Fulfilled result"
    by (cases ?f) (simp_all add: downloadResource_def Let_def)
  with assms have a: "requiresAuth_f result = Some True" "res = skipped_for_auth link"
    by (auto simp: downloadResource_def Let_def skipped_for_auth_def split: if_splits)
  from requiresAuth_from_fetch [OF f a(1)] f a(2) show ?thesis by simp
qed

lemma downloadResource_auth_required:
  assumes "type_k link \<noteq> Notion"
    "downloadFile env (direct_downloadUrl link) (resource_basePath env link outputDir index) 5
       = Fulfilled auth_required"
  shows "downloadResource env link outputDir index = Fulfilled (skipped_for_auth link)"
  using assms by (simp add: downloadResource_def Let_def skipped_for_auth_def auth_required_def)

lemma skipped_for_auth_flag: "skipped_r (skipped_for_auth link) = Some True"
  by (simp add: skipped_for_auth_def)

text \<open>
  C5. Against a server that answers every request with a redirect, \<open>downloadFile\<close>
  terminates for every number of hops it may follow, but not with a failure: once the
  hops are used up the next redirect response is handled like a download, its body is
  written to the output path and the result reports success.
\<close>

theorem redirect_budget_exhausted_reports_success:
  assumes server: "\<forall>secure host path. http_get env secure host path = Got_response r"
    and redirect: "is_3xx r" "truthy (location r)"
    and start: "new_URL env u = Returns U"
    and target: "\<forall>base. new_URL_base env (the (location r)) base = Returns A"
      "new_URL env (href A) = Returns U'"
    and disk: "\<forall>p. fs_mkdir env p = Returns ()" "\<forall>p. fs_open env p = Returns ()"
      "\<forall>v p. pipe env v p = Stream_finish" "\<forall>p. fs_close env p = Returns ()"
  shows "\<exists>res. downloadFile env u out n = Fulfilled res \<and> success_f res \<and> error_f res = None"
proof -
  have "\<exists>res. downloadFile env v out n = Fulfilled res \<and> success_f res \<and> error_f res = None"
    if "\<exists>V. new_URL env v = Returns V" for v
    using that
  proof (induction n arbitrary: v)
    case 0
    then obtain V where V: "new_URL env v = Returns V" ..
    from server have g: "http_get env (protocol V = ''https:'') (hostname V) (pathname V @ search V)
        = Got_response r" by simp
    from downloadFile_final [OF V g, of 0 out] have "downloadFile env v out 0 = receive_body env v out r"
      by simp
    with receive_body_3xx [OF redirect(1), of env v out] disk show ?case by simp
  next
    case (Suc n)
    then obtain V where V: "new_URL env v = Returns V" by blast
    from server have g: "http_get env (protocol V = ''https:'') (hostname V) (pathname V @ search V)
        = Got_response r" by simp
    from target(1) have b: "new_URL_base env (the (location r)) v = Returns A" by simp
    from target(2) Suc.IH [of "href A"] obtain res
      where res: "downloadFile env (href A) out n = Fulfilled res" "success_f res" "error_f res = None"
      by blast
    from downloadFile_redirect [OF V g redirect b res(1)] res(2,3) show ?case by simp
  qed
  with start show ?thesis by blast
qed

theorem redirect_budget_exhausted_reports_success_witness:
  "is_3xx \<lparr>statusCode = Some 302, location = Some ''http://files.example/loop'',
            content_disposition = None, content_type = None\<rparr>
   \<and> downloadFile looping_node ''http://files.example/loop'' ''downloads/resources/Workbook'' 5
      = Fulfilled \<lparr>success_f = True, finalPath_f = Some ''downloads/resources/Workbook'',
                   error_f = None, requiresAuth_f = None\<rparr>"
proof -
  let ?r = "\<lparr>statusCode = Some 302, location = Some ''http://files.example/loop'',
            content_disposition = None, content_type = None\<rparr>"
  let ?A = "\<lparr>protocol = ''http:'', hostname = ''files.example'', pathname = ''/loop'',
             search = [], href = ''http://files.example/loop''\<rparr>"
  have server: "\<forall>secure host path. http_get looping_node secure host path = Got_response ?r"
    by (simp add: looping_node_def)
  have redirect: "is_3xx ?r" "truthy (location ?r)"
    by (simp_all add: is_3xx_def truthy_def)
  have start: "new_URL looping_node ''http://files.example/loop'' = Returns ?A"
    by (simp add: looping_node_def sample_node_def sample_URL_def)
  have target: "\<forall>base. new_URL_base looping_node (the (location ?r)) base = Returns ?A"
    "new_URL looping_node (href ?A) = Returns ?A"
    by (simp_all add: looping_node_def sample_node_def sample_URL_def)
  have disk: "\<forall>p. fs_mkdir looping_node p = Returns ()" "\<forall>p. fs_open looping_node p = Returns ()"
      "\<forall>v p. pipe looping_node v p = Stream_finish" "\<forall>p. fs_close looping_node p = Returns ()"
    by (simp_all add: looping_node_def sample_node_def)
  from redirect_budget_exhausted_reports_success [OF server redirect start target disk, of "''downloads/resources/Workbook''" 5]
  obtain res where res: "downloadFile looping_node ''http://files.example/loop''
      ''downloads/resources/Workbook'' 5 = Fulfilled res" "success_f res" by blast
  have "downloadFile looping_node ''http://files.example/loop'' ''downloads/resources/Workbook'' 5
      = Fulfilled \<lparr>success_f = True, finalPath_f = Some ''downloads/resources/Workbook'',
                   error_f = None, requiresAuth_f = None\<rparr>"
    by (simp add: downloadFile.simps receive_body_def choose_finalPath_def
          getExtensionFromContentType_def or_else_def truthy_def is_3xx_def Let_def trim_def
          mimeToExt_def inherited_def looping_node_def sample_node_def sample_URL_def)
  with res redirect show ?thesis by simp
qed


text \<open>
  C6, as the claim states it, fails: for a fetch answered with 403 the caller returns
  the item as skipped, but the reason it gives is not the string
  \<^verbatim>\<open>Authentication required\<close>.
\<close>

theorem auth_skip_reason_counterexample:
  "skipped_r (the (fulfilled_value (downloadResource forbidden_node sample_link ''downloads/Course/01_Module'' 0))) = Some True
   \<and> skipReason_r (the (fulfilled_value (downloadResource forbidden_node sample_link ''downloads/Course/01_Module'' 0)))
      \<noteq> Some ''Authentication required''"
  by (simp add: downloadResource_def downloadFile.simps receive_body_def direct_sample_link
        sample_link_fields is_3xx_def fulfilled_value_def Let_def forbidden_node_def
        sample_node_def sample_URL_def)


text \<open>
  C6, amended. A resource fetch ends on the response it does not follow as a redirect.
  \<open>downloadFile\<close> resolves with the auth-required result (\<^verbatim>\<open>requiresAuth: true\<close>, error
  \<^verbatim>\<open>Authentication required\<close>) exactly when the fetch ends on a response with status
  401 or 403, after any number of followed redirects, and no other result of
  \<open>downloadFile\<close> carries \<^verbatim>\<open>requiresAuth: true\<close>. For a link that is not a Notion
  page, \<open>downloadResource\<close> returns the item as skipped for authentication (not
  successful, no error, skipped, reason \<^verbatim>\<open>Requires authentication\<close>) exactly when
  the fetch of its download URL with 5 hops ends on a 401 or 403, and it returns no
  other skipped result.
\<close>

theorem auth_status_classified_and_skipped:
  "((\<exists>r. fetch_ends_on env u n r \<and> auth_status r)
       \<longleftrightarrow> downloadFile env u out n = Fulfilled auth_required)
   \<and> (downloadFile env u out n = Fulfilled res \<and> requiresAuth_f res = Some True \<longrightarrow>
        res = auth_required)
   \<and> (type_k link \<noteq> Notion \<longrightarrow>
        ((\<exists>r. fetch_ends_on env (direct_downloadUrl link) 5 r \<and> auth_status r)
           \<longleftrightarrow> downloadResource env link outputDir index = Fulfilled (skipped_for_auth link))
        \<and> (downloadResource env link outputDir index = Fulfilled res' \<and> skipped_r res' = Some True
             \<longrightarrow> res' = skipped_for_auth link))"
proof -
  have a: "(\<exists>r. fetch_ends_on env u n r \<and> auth_status r)
       \<longleftrightarrow> downloadFile env u out n = Fulfilled auth_required"
    by (rule downloadFile_auth_iff)
  have b: "downloadFile env u out n = Fulfilled res \<and> requiresAuth_f res = Some True \<longrightarrow>
        res = auth_required"
    using requiresAuth_from_fetch [of env u out n res] by blast
  have c: "(\<exists>r. fetch_ends_on env (direct_downloadUrl link) 5 r \<and> auth_status r)
           \<longleftrightarrow> downloadResource env link outputDir index = Fulfilled (skipped_for_auth link)"
    if "type_k link \<noteq> Notion"
    using downloadFile_auth_iff [of env "direct_downloadUrl link" 5
            "resource_basePath env link outputDir index"]
      downloadResource_auth_required [OF that, of env outputDir index]
      downloadResource_skipped [OF that _ skipped_for_auth_flag, of env outputDir index]
    by blast
  have d: "downloadResource env link outputDir index = Fulfilled res' \<and> skipped_r res' = Some True
             \<longrightarrow> res' = skipped_for_auth link"
    if "type_k link \<noteq> Notion"
    using downloadResource_skipped [OF that, of env outputDir index res'] by blast
  from a b c d show ?thesis by blast
qed

theorem auth_status_classified_and_skipped_witness:
  "type_k sample_link \<noteq> Notion
   \<and> fetch_ends_on moved_node ''http://files.example/workbook'' 5
        \<lparr>statusCode = Some 403, location = None, content_disposition = None,
         content_type = None\<rparr>
   \<and> auth_status \<lparr>statusCode = Some 403, location = None, content_disposition = None,
         content_type = None\<rparr>
   \<and> downloadFile moved_node ''http://files.example/workbook''
         (resource_basePath moved_node sample_link ''downloads/Course/01_Module'' 0) 5 =
           Fulfilled \<lparr>success_f = False, finalPath_f = None,
                      error_f = Some ''Authentication required'', requiresAuth_f = Some True\<rparr>
   \<and> requiresAuth_f auth_required = Some True
   \<and> downloadResource moved_node sample_link ''downloads/Course/01_Module'' 0 =
           Fulfilled \<lparr>url_r = ''http://files.example/workbook'', success_r = False,
                      outputPath_r = None, error_r = None, skipped_r = Some True,
                      skipReason_r = Some ''Requires authentication''\<rparr>
   \<and> skipped_r (skipped_for_auth sample_link) = Some True"
proof -
  let ?U = "\<lparr>protocol = ''http:'', hostname = ''files.example'', pathname = ''/workbook'',
             search = [], href = ''http://files.example/workbook''\<rparr>"
  let ?A = "\<lparr>protocol = ''http:'', hostname = ''files.example'', pathname = ''/private'',
             search = [], href = ''http://files.example/private''\<rparr>"
  let ?moved = "\<lparr>statusCode = Some 302, location = Some ''http://files.example/private'',
              content_disposition = None, content_type = None\<rparr>"
  let ?r = "\<lparr>statusCode = Some 403, location = None, content_disposition = None,
             content_type = None\<rparr>"
  let ?base = "resource_basePath moved_node sample_link ''downloads/Course/01_Module'' 0"
  note d = direct_sample_link
  have h1: "type_k sample_link \<noteq> Notion" by (simp add: sample_link_def)
  have u: "new_URL moved_node ''http://files.example/workbook'' = Returns ?U"
    "new_URL moved_node (href ?A) = Returns ?A"
    "new_URL_base moved_node (the (location ?moved)) ''http://files.example/workbook'' = Returns ?A"
    by (simp_all add: moved_node_def sample_node_def sample_URL_def)
  have g: "http_get moved_node (protocol ?U = ''https:'') (hostname ?U) (pathname ?U @ search ?U)
             = Got_response ?moved"
    "http_get moved_node (protocol ?A = ''https:'') (hostname ?A) (pathname ?A @ search ?A)
             = Got_response ?r"
    by (simp_all add: moved_node_def)
  have r: "is_3xx ?moved" "truthy (location ?moved)" "\<not> (is_3xx ?r \<and> truthy (location ?r) \<and> 0 < (4::nat))"
    by (simp_all add: is_3xx_def truthy_def)
  have "fetch_ends_on moved_node (href ?A) 4 ?r"
    by (rule fetch_ends_on.answered [OF u(2) g(2) r(3)])
  from fetch_ends_on.redirected [OF u(1) g(1) r(1,2) u(3) this]
  have h2: "fetch_ends_on moved_node ''http://files.example/workbook'' 5 ?r"
    by (simp add: eval_nat_numeral)
  have h3: "auth_status ?r" by (simp add: auth_status_def)
  note main = auth_status_classified_and_skipped
    [of moved_node "''http://files.example/workbook''" 5 ?base auth_required sample_link
        "''downloads/Course/01_Module''" 0 "skipped_for_auth sample_link"]
  from main h2 h3
  have f: "downloadFile moved_node ''http://files.example/workbook'' ?base 5
             = Fulfilled auth_required" by blast
  have h4: "requiresAuth_f auth_required = Some True" by (simp add: auth_required_def)
  from main h1 h2 h3
  have s: "downloadResource moved_node sample_link ''downloads/Course/01_Module'' 0
             = Fulfilled (skipped_for_auth sample_link)"
    unfolding d by blast
  have h5: "skipped_r (skipped_for_auth sample_link) = Some True"
    by (simp add: skipped_for_auth_def)
  from h1 h2 h3 f h4 s h5 show ?thesis
    by (simp add: auth_required_def skipped_for_auth_def sample_link_fields)
qed

text \<open>
  C7. When \<^verbatim>\<open>new URL(url)\<close> throws, the promise of \<open>downloadFile\<close> is rejected with
  that error instead of being resolved with a failure result, and \<open>downloadResource\<close>,
  which awaits it outside any try block, is rejected as well.
\<close>

theorem downloadFile_rejects_on_invalid_url:
  assumes "new_URL env (direct_downloadUrl link) = Throws e"
  shows "downloadFile env (direct_downloadUrl link) out n = Rejected e
     \<and> (type_k link \<noteq> Notion \<longrightarrow> downloadResource env link outputDir index = Rejected e)"
  using downloadFile_bad_url [OF assms]
  by (simp add: downloadResource_def Let_def)


theorem downloadFile_rejects_on_invalid_url_witness:
  "new_URL sample_node (direct_downloadUrl relative_link) = Throws ''TypeError: Invalid URL''
   \<and> type_k relative_link \<noteq> Notion
   \<and> downloadFile sample_node ''/files/guide.pdf'' ''downloads/Course/01_Module/resources/Guide'' 5
       = Rejected ''TypeError: Invalid URL''
   \<and> downloadResource sample_node relative_link ''downloads/Course/01_Module'' 0
       = Rejected ''TypeError: Invalid URL''"
proof -
  note d = direct_relative_link
  have h: "new_URL sample_node (direct_downloadUrl relative_link) = Throws ''TypeError: Invalid URL''"
    by (simp add: d sample_node_def sample_URL_def)
  have k: "type_k relative_link \<noteq> Notion" by (simp add: relative_link_def)
  from downloadFile_rejects_on_invalid_url [OF h, of "''downloads/Course/01_Module/resources/Guide''" 5 "''downloads/Course/01_Module''" 0] h k
  show ?thesis by (simp add: d)
qed

end
